theory Spec2Isabelle
  imports Complex_Main "HOL-Library.Product_Lexorder"
begin

section \<open>Labels and ranked predictions\<close>

text \<open>
  The three app variants (\<^verbatim>\<open>src/App.js\<close>, \<^verbatim>\<open>src/unnamed/part_000\<close>,
  \<^verbatim>\<open>src/unnamed/part_001\<close>) turn the model's output vector into the published list with
  the same two lines:
  \<^verbatim>\<open>
  const arr = probs.map((p, i) => ({ className: LABELS[i] || `class_${i}`, probability: p }));
  arr.sort((a, b) => b.probability - a.probability);
  \<close>
  Probabilities are JavaScript numbers read from the output tensor (a
  \<^verbatim>\<open>Float32Array\<close>): NaN, an infinity, or a finite number, which is modelled by the real
  it denotes (the difference of two finite numbers has the sign of the exact difference).
\<close>

datatype jsnum = NaN | NegInf | Fin real | PosInf

text \<open>The subtraction \<^verbatim>\<open>x - y\<close> and the comparison \<^verbatim>\<open>x <= y\<close> of JavaScript numbers.\<close>

fun jsminus :: "jsnum \<Rightarrow> jsnum \<Rightarrow> jsnum" where
  "jsminus NaN y = NaN"
| "jsminus x NaN = NaN"
| "jsminus PosInf PosInf = NaN"
| "jsminus PosInf y = PosInf"
| "jsminus NegInf NegInf = NaN"
| "jsminus NegInf y = NegInf"
| "jsminus (Fin x) PosInf = NegInf"
| "jsminus (Fin x) NegInf = PosInf"
| "jsminus (Fin x) (Fin y) = Fin (x - y)"

fun jsle :: "jsnum \<Rightarrow> jsnum \<Rightarrow> bool" where
  "jsle NaN y = False"
| "jsle x NaN = False"
| "jsle NegInf y = True"
| "jsle x PosInf = True"
| "jsle PosInf y = False"
| "jsle x NegInf = False"
| "jsle (Fin x) (Fin y) = (x \<le> y)"

record prediction =
  className :: string
  probability :: jsnum

definition LABELS :: "string list" where
  "LABELS = [''OR'', ''AND'', ''NOT'']"

definition digit :: "nat \<Rightarrow> char" where
  "digit d = ''0123456789'' ! d"

text \<open>The decimal rendering of an index by the template literal \<^verbatim>\<open>${i}\<close>.\<close>

function decimal :: "nat \<Rightarrow> string" where
  "decimal n = (if n < 10 then [digit n] else decimal (n div 10) @ [digit (n mod 10)])"
  by pat_completeness auto
termination
  by (relation "measure id") auto

declare decimal.simps [simp del]

text \<open>
  \<^verbatim>\<open>LABELS[i] || `class_${i}`\<close>: an index beyond the array reads \<^verbatim>\<open>undefined\<close>, and the
  empty string is the only falsy string; both select the right operand of \<^verbatim>\<open>||\<close>.
\<close>

definition labelFor :: "string list \<Rightarrow> nat \<Rightarrow> string" where
  "labelFor labels i =
     (if i < length labels \<and> labels ! i \<noteq> [] then labels ! i else ''class_'' @ decimal i)"

text \<open>\<^verbatim>\<open>probs.map((p, i) => ...)\<close>, the index counted from \<open>k\<close>.\<close>

fun mapIndexed :: "string list \<Rightarrow> nat \<Rightarrow> jsnum list \<Rightarrow> prediction list" where
  "mapIndexed labels k [] = []"
| "mapIndexed labels k (p # ps) =
     \<lparr>className = labelFor labels k, probability = p\<rparr> # mapIndexed labels (Suc k) ps"

definition toPredictions :: "string list \<Rightarrow> jsnum list \<Rightarrow> prediction list" where
  "toPredictions labels probs = mapIndexed labels 0 probs"

text \<open>The comparator \<^verbatim>\<open>(a, b) => b.probability - a.probability\<close>.\<close>

definition byProbabilityDesc :: "prediction \<Rightarrow> prediction \<Rightarrow> jsnum" where
  "byProbabilityDesc a b = jsminus (probability b) (probability a)"

text \<open>
  \<^verbatim>\<open>Array.prototype.sort\<close> with a comparator: a stable sort (ECMAScript 2019) that takes
  a comparator result of NaN as 0. It is modelled as the insertion sort that puts an
  element before the first one it does not compare greater than. When the comparator is
  consistent every stable sort gives this result; with a NaN among the values it is not,
  and the result is the engine's choice.
\<close>

definition notAfter :: "jsnum \<Rightarrow> bool" where
  "notAfter v = (case v of NaN \<Rightarrow> True | NegInf \<Rightarrow> True | Fin r \<Rightarrow> r \<le> 0 | PosInf \<Rightarrow> False)"

fun insertBy :: "('a \<Rightarrow> 'a \<Rightarrow> jsnum) \<Rightarrow> 'a \<Rightarrow> 'a list \<Rightarrow> 'a list" where
  "insertBy cmp x [] = [x]"
| "insertBy cmp x (y # ys) = (if notAfter (cmp x y) then x # y # ys else y # insertBy cmp x ys)"

definition sortBy :: "('a \<Rightarrow> 'a \<Rightarrow> jsnum) \<Rightarrow> 'a list \<Rightarrow> 'a list" where
  "sortBy cmp xs = foldr (insertBy cmp) xs []"

definition rank :: "string list \<Rightarrow> jsnum list \<Rightarrow> prediction list" where
  "rank labels probs = sortBy byProbabilityDesc (toPredictions labels probs)"

section \<open>Application state\<close>

text \<open>
  The component keeps its state in React refs (read and written synchronously) and React
  state variables. Both are fields of one record, together with the part of the host the
  code acts on: the console, the pending animation-frame and timer callbacks, and the
  tensors the TensorFlow.js engine holds. A state setter (\<^verbatim>\<open>setPredictions\<close>, ...) is a
  write to its field. The two variants that run a live loop differ in a few places;
  \<open>variant\<close> names which file is meant.
\<close>

datatype variant = AppJs | Part000

datatype platform = Web | Native

datatype log = ConsoleError string | ConsoleWarn string | ConsoleLog string | Alert string

record app =
  cameraRef :: bool
  videoRef :: bool
  videoSrc :: bool
  webStreamRef :: bool
  modelRef :: "nat option"
  running :: bool
  rafId :: "nat option"
  lastRun :: int
  frameIntervalMs :: int
  timeoutId :: "nat option"
  hasPermission :: "bool option"
  videoReady :: bool
  webNeedsStart :: bool
  model :: "nat option"
  modelLoading :: bool
  isTfReady :: bool
  liveRunning :: bool
  predictions :: "prediction list"
  photoUri :: "string option"
  console :: "log list"
  nextHandle :: nat
  pendingFrames :: "nat list"
  pendingTimers :: "nat list"
  liveTensors :: "nat list"
  nextTensor :: nat
  loadsStarted :: nat
  capturesInFlight :: nat

text \<open>
  \<open>cameraRef\<close>, \<open>videoRef\<close>: whether the ref holds an element; \<open>videoSrc\<close>: whether
  \<^verbatim>\<open>videoRef.current.srcObject\<close> is set; \<open>modelRef\<close>: the loaded model, if any;
  \<open>running\<close> is \<^verbatim>\<open>liveRef.current.running\<close>; \<open>rafId\<close>, \<open>lastRun\<close>,
  \<open>frameIntervalMs\<close> are \<^verbatim>\<open>webLoopRef.current\<close>; \<open>timeoutId\<close> is
  \<^verbatim>\<open>nativeLoopRef.current.timeoutId\<close>. \<open>model\<close> is the state variable that only
  \<^verbatim>\<open>part_000\<close> has. \<open>loadsStarted\<close> counts the load attempts begun and
  \<open>capturesInFlight\<close> the \<^verbatim>\<open>takePictureAsync\<close> calls not yet settled.
\<close>

definition app0 :: app where
  "app0 = \<lparr>cameraRef = True, videoRef = True, videoSrc = True, webStreamRef = True,
     modelRef = None, running = False, rafId = None, lastRun = 0, frameIntervalMs = 180,
     timeoutId = None, hasPermission = Some True, videoReady = True, webNeedsStart = False,
     model = None, modelLoading = False, isTfReady = False, liveRunning = False,
     predictions = [], photoUri = None, console = [], nextHandle = 1, pendingFrames = [],
     pendingTimers = [], liveTensors = [], nextTensor = 0, loadsStarted = 0,
     capturesInFlight = 0\<rparr>"

definition emit :: "log \<Rightarrow> app \<Rightarrow> app" where
  "emit m st = st\<lparr>console := console st @ [m]\<rparr>"

subsection \<open>Host scheduling primitives\<close>

definition requestAnimationFrame :: "app \<Rightarrow> nat \<times> app" where
  "requestAnimationFrame st =
     (nextHandle st,
      st\<lparr>pendingFrames := pendingFrames st @ [nextHandle st], nextHandle := Suc (nextHandle st)\<rparr>)"

definition cancelAnimationFrame :: "nat \<Rightarrow> app \<Rightarrow> app" where
  "cancelAnimationFrame h st = st\<lparr>pendingFrames := removeAll h (pendingFrames st)\<rparr>"

definition setTimeout :: "app \<Rightarrow> nat \<times> app" where
  "setTimeout st =
     (nextHandle st,
      st\<lparr>pendingTimers := pendingTimers st @ [nextHandle st], nextHandle := Suc (nextHandle st)\<rparr>)"

definition clearTimeout :: "nat \<Rightarrow> app \<Rightarrow> app" where
  "clearTimeout h st = st\<lparr>pendingTimers := removeAll h (pendingTimers st)\<rparr>"

subsection \<open>Tensors\<close>

text \<open>
  Every tensor operation of the source (\<^verbatim>\<open>fromPixels\<close>, \<^verbatim>\<open>decodeJpeg\<close>,
  \<^verbatim>\<open>resizeBilinear\<close>, \<^verbatim>\<open>div\<close>, \<^verbatim>\<open>expandDims\<close>, \<^verbatim>\<open>predict\<close>) yields a new tensor
  that lives until it is disposed. \<^verbatim>\<open>tf.tidy(f)\<close> runs \<open>f\<close> and, whether \<open>f\<close> returns
  or throws, disposes the tensors created inside it (none is returned by the callbacks
  here: they return plain arrays). Identifiers are handed out in increasing order, so the
  tensors created since a scope began are the live ones whose identifier is not below the
  identifier that was next when it began.
\<close>

datatype 'a outcome = Thrown | Value 'a

definition newTensor :: "app \<Rightarrow> nat \<times> app" where
  "newTensor st =
     (nextTensor st,
      st\<lparr>liveTensors := nextTensor st # liveTensors st, nextTensor := Suc (nextTensor st)\<rparr>)"

definition dispose :: "nat list \<Rightarrow> app \<Rightarrow> app" where
  "dispose ts st = st\<lparr>liveTensors := filter (\<lambda>t. t \<notin> set ts) (liveTensors st)\<rparr>"

definition endScope :: "nat \<Rightarrow> app \<Rightarrow> app" where
  "endScope mark st = st\<lparr>liveTensors := filter (\<lambda>t. t < mark) (liveTensors st)\<rparr>"

definition tidy :: "(app \<Rightarrow> 'a \<times> app) \<Rightarrow> app \<Rightarrow> 'a \<times> app" where
  "tidy f st = (case f st of (r, s1) \<Rightarrow> (r, endScope (nextTensor st) s1))"

text \<open>
  What the model does with one input: \<^verbatim>\<open>predict\<close> throws; \<^verbatim>\<open>predict\<close> returns and
  reading the data throws (\<^verbatim>\<open>out[0]\<close> of an empty array, \<^verbatim>\<open>dataSync\<close> failing); the
  output has no \<^verbatim>\<open>dataSync\<close>, so \<open>data\<close> stays \<^verbatim>\<open>null\<close>; or the data is read.
\<close>

datatype predict_outcome = PredictThrows | DataSyncThrows | NoData | Data "jsnum list"

text \<open>
  \<^verbatim>\<open>
  const out = modelRef.current.predict(norm);
  let data = null;
  if (Array.isArray(out)) { if (out[0].dataSync) data = out[0].dataSync(); }
  else if (out.dataSync) { data = out.dataSync(); }
  return data ? Array.from(data) : null;
  \<close>
  With \<^verbatim>\<open>modelRef.current\<close> null the call \<^verbatim>\<open>.predict\<close> throws a TypeError.
\<close>

definition predictData :: "predict_outcome \<Rightarrow> app \<Rightarrow> jsnum list option outcome \<times> app" where
  "predictData po st =
     (case modelRef st of
        None \<Rightarrow> (Thrown, st)
      | Some m \<Rightarrow>
          (case po of
             PredictThrows \<Rightarrow> (Thrown, st)
           | DataSyncThrows \<Rightarrow> (Thrown, snd (newTensor st))
           | NoData \<Rightarrow> (Value None, snd (newTensor st))
           | Data ps \<Rightarrow> (Value (Some ps), snd (newTensor st))))"

text \<open>
  The body of the web loop's and the web snapshot's \<^verbatim>\<open>tf.tidy\<close>: pixels of the video
  element, resize, divide, add the batch dimension, predict.
\<close>

definition framePipeline :: "bool \<Rightarrow> predict_outcome \<Rightarrow> app \<Rightarrow> jsnum list option outcome \<times> app" where
  "framePipeline pixelsThrow po st =
     (if pixelsThrow then (Thrown, st)
      else predictData po (snd (newTensor (snd (newTensor (snd (newTensor (snd (newTensor st)))))))))"

text \<open>
  \<^verbatim>\<open>predictFromTensor\<close> of \<^verbatim>\<open>part_000\<close>: null without a model, otherwise predict and
  rank inside \<^verbatim>\<open>tf.tidy\<close>.
\<close>

definition predictFromTensor :: "predict_outcome \<Rightarrow> app \<Rightarrow> prediction list option outcome \<times> app" where
  "predictFromTensor po st =
     (case modelRef st of
        None \<Rightarrow> (Value None, st)
      | Some m \<Rightarrow>
          tidy (\<lambda>s. case predictData po s of
                      (Thrown, s1) \<Rightarrow> (Thrown, s1)
                    | (Value None, s1) \<Rightarrow> (Value None, s1)
                    | (Value (Some ps), s1) \<Rightarrow> (Value (Some (rank LABELS ps)), s1)) st)"

text \<open>
  The inline form of \<^verbatim>\<open>App.js\<close>: \<^verbatim>\<open>tf.tidy\<close> around predict, the ranking after it.
\<close>

definition predictInline :: "predict_outcome \<Rightarrow> app \<Rightarrow> prediction list option outcome \<times> app" where
  "predictInline po st =
     (case tidy (predictData po) st of
        (Thrown, s1) \<Rightarrow> (Thrown, s1)
      | (Value None, s1) \<Rightarrow> (Value None, s1)
      | (Value (Some ps), s1) \<Rightarrow> (Value (Some (rank LABELS ps)), s1))"

definition infer :: "variant \<Rightarrow> predict_outcome \<Rightarrow> app \<Rightarrow> prediction list option outcome \<times> app" where
  "infer v po st = (case v of AppJs \<Rightarrow> predictInline po st | Part000 \<Rightarrow> predictFromTensor po st)"

section \<open>Asynchronous functions\<close>

text \<open>
  An \<^verbatim>\<open>async\<close> function runs without interruption up to an \<^verbatim>\<open>await\<close> of an external
  operation and later continues from there, in whatever state the component then is. Each
  such function is modelled by one state transformer per stretch: \<open>f_begin\<close> for the call
  up to the first such \<^verbatim>\<open>await\<close> and a continuation that takes the outcome of the awaited
  operation. A stretch reports whether the function returned, threw (its promise
  rejects) or is waiting.
\<close>

datatype await_point = AtLoad | AtCamera | AtCapture

datatype 'a progress = Returned 'a | Rejected | Awaiting await_point

subsection \<open>Model loader\<close>

text \<open>
  \<^verbatim>\<open>
  const loadModel = useCallback(async () => {
    if (modelRef.current || modelLoading) return modelRef.current;
    setModelLoading(true);
    try { await tf.ready(); setIsTfReady(true); ... m = await tf.loadLayersModel(...);
          if (m) modelRef.current = m; return m; }
    catch (e) { console.error('loadModel error', e); alert('Gagal memuat model. Lihat console.');
                return null; }
    finally { setModelLoading(false); }
  }, [modelLoading]);
  \<close>
  \<open>modelLoading\<close> in the guard is the value captured by the closure at the render that
  created it; it is the argument \<open>seenLoading\<close>. The outcome of the awaited loading chain is
  \<open>ReadyThrows\<close> (\<^verbatim>\<open>tf.ready()\<close> rejects), \<open>LoadThrows\<close> (a later step rejects) or
  \<open>Loaded m\<close>.
\<close>

datatype load_outcome = ReadyThrows | LoadThrows | Loaded nat

definition loadModel_begin :: "bool \<Rightarrow> app \<Rightarrow> nat option progress \<times> app" where
  "loadModel_begin seenLoading st =
     (if modelRef st \<noteq> None \<or> seenLoading then (Returned (modelRef st), st)
      else (Awaiting AtLoad, st\<lparr>modelLoading := True, loadsStarted := Suc (loadsStarted st)\<rparr>))"

definition loadFailed :: "app \<Rightarrow> app" where
  "loadFailed st =
     emit (Alert ''Gagal memuat model. Lihat console.'') (emit (ConsoleError ''loadModel error'') st)"

definition loadModel_resume :: "variant \<Rightarrow> platform \<Rightarrow> load_outcome \<Rightarrow> app \<Rightarrow> nat option \<times> app" where
  "loadModel_resume v pf oc st =
     (case oc of
        ReadyThrows \<Rightarrow> (None, (loadFailed st)\<lparr>modelLoading := False\<rparr>)
      | LoadThrows \<Rightarrow> (None, (loadFailed (st\<lparr>isTfReady := True\<rparr>))\<lparr>modelLoading := False\<rparr>)
      | Loaded m \<Rightarrow>
          (Some m,
           (case v of
              AppJs \<Rightarrow> st\<lparr>isTfReady := True, modelRef := Some m\<rparr>
            | Part000 \<Rightarrow>
                (emit (ConsoleLog (case pf of Web \<Rightarrow> ''Model loaded (web)''
                                            | Native \<Rightarrow> ''Model loaded (native)''))
                   (st\<lparr>isTfReady := True\<rparr>))\<lparr>modelRef := Some m, model := Some m\<rparr>)
           \<lparr>modelLoading := False\<rparr>))"

subsection \<open>Web loop\<close>

text \<open>
  \<^verbatim>\<open>
  const step = async () => {
    webLoopRef.current.rafId = requestAnimationFrame(step);
    const now = Date.now();
    if (now - webLoopRef.current.lastRun < webLoopRef.current.frameIntervalMs) return;
    webLoopRef.current.lastRun = now;
    if (!videoRef.current || !modelRef.current) return;
    try { const probs = tf.tidy(...); if (probs) { ...; setPredictions(arr); } }
    catch (e) { console.warn('webLoop predict error', e); }
  };
  webLoopRef.current.rafId = requestAnimationFrame(step);
  \<close>
  \<open>step\<close> takes the value of \<^verbatim>\<open>Date.now()\<close> and what the frame and the model will do, and
  reports which path it took. It has no \<^verbatim>\<open>await\<close> of an external operation
  (\<^verbatim>\<open>part_000\<close> awaits the array \<^verbatim>\<open>tf.tidy\<close> returned), so it is one stretch.
  \<^verbatim>\<open>stopWebLoop\<close> tests the handle for truthiness, which \<^verbatim>\<open>null\<close> and 0 fail:
  \<^verbatim>\<open>
  if (webLoopRef.current.rafId) {
    cancelAnimationFrame(webLoopRef.current.rafId);
    webLoopRef.current.rafId = null;
  }
  \<close>
\<close>

definition armFrame :: "app \<Rightarrow> app" where
  "armFrame st = (case requestAnimationFrame st of (h, s1) \<Rightarrow> s1\<lparr>rafId := Some h\<rparr>)"

definition runWebLoop :: "app \<Rightarrow> app" where
  "runWebLoop st = armFrame st"

datatype tick = Skipped | NoSource | Worked

definition publishFrame :: "bool \<Rightarrow> predict_outcome \<Rightarrow> app \<Rightarrow> app" where
  "publishFrame pixelsThrow po st =
     (case tidy (framePipeline pixelsThrow po) st of
        (Thrown, s1) \<Rightarrow> emit (ConsoleWarn ''webLoop predict error'') s1
      | (Value None, s1) \<Rightarrow> s1
      | (Value (Some probs), s1) \<Rightarrow> s1\<lparr>predictions := rank LABELS probs\<rparr>)"

definition step :: "int \<Rightarrow> bool \<Rightarrow> predict_outcome \<Rightarrow> app \<Rightarrow> tick \<times> app" where
  "step now pixelsThrow po st =
     (let s1 = armFrame st in
      if now - lastRun s1 < frameIntervalMs s1 then (Skipped, s1)
      else let s2 = s1\<lparr>lastRun := now\<rparr> in
        if \<not> videoRef s2 \<or> modelRef s2 = None then (NoSource, s2)
        else (Worked, publishFrame pixelsThrow po s2))"

text \<open>
  The scheduling opportunities the host offers, one after the other: each is the time
  \<^verbatim>\<open>Date.now()\<close> returns and what the frame and the model do at that tick. The result
  lists, per tick, the time and the path \<open>step\<close> took.
\<close>

fun runTicks :: "app \<Rightarrow> (int \<times> bool \<times> predict_outcome) list \<Rightarrow> (int \<times> tick) list" where
  "runTicks st [] = []"
| "runTicks st ((now, pixelsThrow, po) # rest) =
     (case step now pixelsThrow po st of (r, s1) \<Rightarrow> (now, r) # runTicks s1 rest)"

definition stopWebLoop :: "app \<Rightarrow> app" where
  "stopWebLoop st =
     (case rafId st of
        None \<Rightarrow> st
      | Some h \<Rightarrow> if h \<noteq> 0 then (cancelAnimationFrame h st)\<lparr>rafId := None\<rparr> else st)"

subsection \<open>Native loop\<close>

text \<open>
  \<^verbatim>\<open>
  const runNativeLoop = useCallback(async () => {
    if (!cameraRef.current || !modelRef.current) return;
    try {
      const p = await cameraRef.current.takePictureAsync({...});
      setPhotoUri(p.uri);
      let imageTensor = null;
      try { const u8 = base64ToUint8Array(p.base64);
            if (tf.node && tf.node.decodeImage) imageTensor = tf.node.decodeImage(u8, 3);
            else if (tf.decodeJpeg) imageTensor = tf.decodeJpeg(u8); }
      catch (e) { console.warn('native decode error', e); }
      if (!imageTensor) { console.warn('native: cannot decode image to tensor'); }
      else {
        const resized = tf.image.resizeBilinear(imageTensor, [IMAGE_SIZE, IMAGE_SIZE]);
        const normalized = resized.div(255.0).expandDims(0);
        const out = tf.tidy(() => { ... });          // part_000: predictFromTensor(normalized)
        tf.dispose([imageTensor, resized, normalized]);
        if (out) { ...; setPredictions(arr); }
      }
    } catch (e) { console.warn('runNativeLoop error', e); }
    finally {
      if (liveRef.current.running)
        nativeLoopRef.current.timeoutId = setTimeout(runNativeLoop, nativeFrameIntervalMs);
    }
  }, []);
  \<close>
  The capture either rejects or yields a photo; with the photo come what the decoder and
  the model will do with it. Decoding throws, yields no tensor (no decoder present), or
  yields the image tensor.
\<close>

datatype decode_outcome = DecodeThrows | DecodeNull | Decoded

datatype capture_outcome = CaptureThrows | Captured string decode_outcome predict_outcome

definition decodeImage :: "string \<Rightarrow> decode_outcome \<Rightarrow> app \<Rightarrow> nat option \<times> app" where
  "decodeImage msg dec st =
     (case dec of
        DecodeThrows \<Rightarrow> (None, emit (ConsoleWarn msg) st)
      | DecodeNull \<Rightarrow> (None, st)
      | Decoded \<Rightarrow> (case newTensor st of (t, s1) \<Rightarrow> (Some t, s1)))"

text \<open>
  From the decoded image to the publication: resize, divide, add the batch dimension
  (three new tensors, the last one \<open>normalized\<close>), predict, dispose
  \<^verbatim>\<open>[imageTensor, resized, normalized]\<close>, publish. A throw leaves before the dispose.
\<close>

definition classifyImage :: "variant \<Rightarrow> nat \<Rightarrow> predict_outcome \<Rightarrow> app \<Rightarrow> unit outcome \<times> app" where
  "classifyImage v imageTensor po st =
     (case newTensor st of (resized, s1) \<Rightarrow>
      case newTensor s1 of (divided, s2) \<Rightarrow>
      case newTensor s2 of (normalized, s3) \<Rightarrow>
      case infer v po s3 of
        (Thrown, s4) \<Rightarrow> (Thrown, s4)
      | (Value out, s4) \<Rightarrow>
          (let s5 = dispose [imageTensor, resized, normalized] s4 in
           (Value (), (case out of None \<Rightarrow> s5 | Some arr \<Rightarrow> s5\<lparr>predictions := arr\<rparr>))))"

definition rearm :: "app \<Rightarrow> app" where
  "rearm st =
     (if running st then (case setTimeout st of (h, s1) \<Rightarrow> s1\<lparr>timeoutId := Some h\<rparr>) else st)"

definition runNativeLoop_begin :: "app \<Rightarrow> unit progress \<times> app" where
  "runNativeLoop_begin st =
     (if \<not> cameraRef st \<or> modelRef st = None then (Returned (), st)
      else (Awaiting AtCapture, st\<lparr>capturesInFlight := Suc (capturesInFlight st)\<rparr>))"

definition nativeBody :: "variant \<Rightarrow> capture_outcome \<Rightarrow> app \<Rightarrow> unit outcome \<times> app" where
  "nativeBody v co st =
     (case co of
        CaptureThrows \<Rightarrow> (Thrown, st)
      | Captured uri dec po \<Rightarrow>
          (case decodeImage ''native decode error'' dec (st\<lparr>photoUri := Some uri\<rparr>) of
             (None, s1) \<Rightarrow> (Value (), emit (ConsoleWarn ''native: cannot decode image to tensor'') s1)
           | (Some t, s1) \<Rightarrow> classifyImage v t po s1))"

definition runNativeLoop_resume :: "variant \<Rightarrow> capture_outcome \<Rightarrow> app \<Rightarrow> app" where
  "runNativeLoop_resume v co st =
     (case nativeBody v co (st\<lparr>capturesInFlight := capturesInFlight st - 1\<rparr>) of
        (Thrown, s1) \<Rightarrow> rearm (emit (ConsoleWarn ''runNativeLoop error'') s1)
      | (Value u, s1) \<Rightarrow> rearm s1)"

definition stopNativeLoop :: "app \<Rightarrow> app" where
  "stopNativeLoop st =
     (case timeoutId st of
        None \<Rightarrow> st
      | Some h \<Rightarrow> if h \<noteq> 0 then (clearTimeout h st)\<lparr>timeoutId := None\<rparr> else st)"

subsection \<open>Starting and stopping the live session\<close>

text \<open>
  The tail shared by both start functions, from the test of the model on:
  \<^verbatim>\<open>
  if (!m) { alert('Gagal memuat model.'); return false; }
  liveRef.current.running = true;
  setLiveRunning(true);
  if (Platform.OS === 'web') { webLoopRef.current.frameIntervalMs = 180; runWebLoop(); }
  else { runNativeLoop(); }
  return true;
  \<close>
  (\<^verbatim>\<open>part_000\<close> sets the interval to 200 and returns nothing). The boolean is the value
  \<^verbatim>\<open>startLiveInternal\<close> returns.
\<close>

definition enterRunning :: "variant \<Rightarrow> platform \<Rightarrow> app \<Rightarrow> app" where
  "enterRunning v pf st =
     (let s1 = st\<lparr>running := True, liveRunning := True\<rparr> in
      case pf of
        Web \<Rightarrow> runWebLoop (s1\<lparr>frameIntervalMs := (case v of AppJs \<Rightarrow> 180 | Part000 \<Rightarrow> 200)\<rparr>)
      | Native \<Rightarrow> snd (runNativeLoop_begin s1))"

definition withModel :: "variant \<Rightarrow> platform \<Rightarrow> nat option \<Rightarrow> app \<Rightarrow> bool \<times> app" where
  "withModel v pf m st =
     (case m of
        None \<Rightarrow> (False, emit (Alert ''Gagal memuat model.'') st)
      | Some h \<Rightarrow> (True, enterRunning v pf st))"

text \<open>
  \<^verbatim>\<open>startLiveInternal\<close> of \<^verbatim>\<open>App.js\<close>:
  \<^verbatim>\<open>
  if (liveRef.current.running) return true;
  let m = modelRef.current;
  if (!m) m = await loadModel();
  ...
  \<close>
\<close>

definition startLiveInternal_begin :: "platform \<Rightarrow> bool \<Rightarrow> app \<Rightarrow> bool progress \<times> app" where
  "startLiveInternal_begin pf seenLoading st =
     (if running st then (Returned True, st)
      else case modelRef st of
        Some m \<Rightarrow> (case withModel AppJs pf (Some m) st of (b, s1) \<Rightarrow> (Returned b, s1))
      | None \<Rightarrow>
          (case loadModel_begin seenLoading st of
             (Returned m, s1) \<Rightarrow> (case withModel AppJs pf m s1 of (b, s2) \<Rightarrow> (Returned b, s2))
           | (Rejected, s1) \<Rightarrow> (Rejected, s1)
           | (Awaiting a, s1) \<Rightarrow> (Awaiting a, s1)))"

definition startLiveInternal_resume :: "platform \<Rightarrow> load_outcome \<Rightarrow> app \<Rightarrow> bool \<times> app" where
  "startLiveInternal_resume pf oc st =
     (case loadModel_resume AppJs pf oc st of (m, s1) \<Rightarrow> withModel AppJs pf m s1)"

text \<open>
  \<^verbatim>\<open>startWebCamera\<close> of \<^verbatim>\<open>part_000\<close>, which its \<^verbatim>\<open>startLive\<close> awaits when the video
  element has no stream: \<^verbatim>\<open>getUserMedia\<close> rejects, or resolves with a stream, after which
  \<^verbatim>\<open>play()\<close> succeeds or not.
\<close>

datatype camera_outcome = MediaDenied | Stream bool

definition startWebCamera_resume :: "camera_outcome \<Rightarrow> app \<Rightarrow> app" where
  "startWebCamera_resume co st =
     (case co of
        MediaDenied \<Rightarrow>
          emit (Alert ''Tidak bisa mengakses kamera. Periksa permission di browser.'')
            ((emit (ConsoleError ''startWebCamera error'') st)
               \<lparr>webNeedsStart := True, hasPermission := Some False\<rparr>)
      | Stream playOk \<Rightarrow>
          (let s1 = st\<lparr>webStreamRef := True, hasPermission := Some True, webNeedsStart := False\<rparr> in
           if videoRef s1 then
             (if playOk then s1\<lparr>videoSrc := True, videoReady := True\<rparr>
              else emit (ConsoleWarn ''video play failed'') (s1\<lparr>videoSrc := True, webNeedsStart := True\<rparr>))
           else s1))"

text \<open>
  \<^verbatim>\<open>startLive\<close> of \<^verbatim>\<open>part_000\<close>:
  \<^verbatim>\<open>
  if (liveRef.current.running) return;
  if (Platform.OS === 'web') {
    if (!videoRef.current || !videoRef.current.srcObject) { await startWebCamera(); }
    if (!videoRef.current || !videoRef.current.srcObject) {
      alert('Kamera belum aktif. Tekan Mulai Kamera terlebih dahulu.'); return; }
  } else {
    if (!cameraRef.current) { alert('Kamera native belum siap.'); return; }
  }
  let m = modelRef.current;
  if (!m) { m = await loadModel(); }
  ...
  \<close>
\<close>

definition startLive_model :: "platform \<Rightarrow> bool \<Rightarrow> app \<Rightarrow> unit progress \<times> app" where
  "startLive_model pf seenLoading st =
     (case modelRef st of
        Some m \<Rightarrow> (Returned (), snd (withModel Part000 pf (Some m) st))
      | None \<Rightarrow>
          (case loadModel_begin seenLoading st of
             (Returned m, s1) \<Rightarrow> (Returned (), snd (withModel Part000 pf m s1))
           | (Rejected, s1) \<Rightarrow> (Rejected, s1)
           | (Awaiting a, s1) \<Rightarrow> (Awaiting a, s1)))"

definition startLive_begin :: "platform \<Rightarrow> bool \<Rightarrow> app \<Rightarrow> unit progress \<times> app" where
  "startLive_begin pf seenLoading st =
     (if running st then (Returned (), st)
      else case pf of
        Web \<Rightarrow>
          if \<not> videoRef st \<or> \<not> videoSrc st then (Awaiting AtCamera, st)
          else startLive_model Web seenLoading st
      | Native \<Rightarrow>
          if \<not> cameraRef st then (Returned (), emit (Alert ''Kamera native belum siap.'') st)
          else startLive_model Native seenLoading st)"

definition startLive_afterCamera :: "camera_outcome \<Rightarrow> bool \<Rightarrow> app \<Rightarrow> unit progress \<times> app" where
  "startLive_afterCamera co seenLoading st =
     (let s1 = startWebCamera_resume co st in
      if \<not> videoRef s1 \<or> \<not> videoSrc s1
      then (Returned (), emit (Alert ''Kamera belum aktif. Tekan Mulai Kamera terlebih dahulu.'') s1)
      else startLive_model Web seenLoading s1)"

definition startLive_afterLoad :: "platform \<Rightarrow> load_outcome \<Rightarrow> app \<Rightarrow> app" where
  "startLive_afterLoad pf oc st =
     (case loadModel_resume Part000 pf oc st of (m, s1) \<Rightarrow> snd (withModel Part000 pf m s1))"

text \<open>
  \<^verbatim>\<open>stopLive\<close> of \<^verbatim>\<open>part_000\<close> (the unmount cleanup of \<^verbatim>\<open>App.js\<close> begins with the
  same four statements):
  \<^verbatim>\<open>
  liveRef.current.running = false;
  setLiveRunning(false);
  stopWebLoop();
  stopNativeLoop();
  \<close>
\<close>

definition stopLive :: "app \<Rightarrow> app" where
  "stopLive st = stopNativeLoop (stopWebLoop (st\<lparr>running := False, liveRunning := False\<rparr>))"

subsection \<open>Snapshot\<close>

text \<open>
  \<^verbatim>\<open>handleSnapshot\<close> of \<^verbatim>\<open>App.js\<close>:
  \<^verbatim>\<open>
  if (!modelRef.current) await loadModel();
  if (!modelRef.current) return;
  if (Platform.OS === 'web') {
    if (!videoRef.current) return alert('Video belum siap');
    ...; setPhotoUri(canvas.toDataURL('image/jpeg', 0.8));
    const probs = tf.tidy(...);
    if (probs) { ...; setPredictions(arr); }
  } else {
    if (!cameraRef.current) return;
    const p = await cameraRef.current.takePictureAsync({...});
    setPhotoUri(p.uri);
    let imageTensor = null;
    try { ... } catch (e) { console.warn(e); }
    if (imageTensor) { ...; tf.dispose([imageTensor, r, norm]); if (res) {...; setPredictions(arr);} }
  }
  \<close>
  Nothing here is inside a \<^verbatim>\<open>try\<close> but the decoding, so a throw rejects the promise.
  \<open>dataUrl\<close> is what \<^verbatim>\<open>canvas.toDataURL\<close> returns.
\<close>

definition handleSnapshot_loaded ::
  "platform \<Rightarrow> string \<Rightarrow> bool \<Rightarrow> predict_outcome \<Rightarrow> app \<Rightarrow> unit progress \<times> app" where
  "handleSnapshot_loaded pf dataUrl pixelsThrow po st =
     (if modelRef st = None then (Returned (), st)
      else case pf of
        Web \<Rightarrow>
          if \<not> videoRef st then (Returned (), emit (Alert ''Video belum siap'') st)
          else (case tidy (framePipeline pixelsThrow po) (st\<lparr>photoUri := Some dataUrl\<rparr>) of
                  (Thrown, s1) \<Rightarrow> (Rejected, s1)
                | (Value None, s1) \<Rightarrow> (Returned (), s1)
                | (Value (Some probs), s1) \<Rightarrow> (Returned (), s1\<lparr>predictions := rank LABELS probs\<rparr>))
      | Native \<Rightarrow>
          if \<not> cameraRef st then (Returned (), st)
          else (Awaiting AtCapture, st\<lparr>capturesInFlight := Suc (capturesInFlight st)\<rparr>))"

definition handleSnapshot_begin ::
  "platform \<Rightarrow> bool \<Rightarrow> string \<Rightarrow> bool \<Rightarrow> predict_outcome \<Rightarrow> app \<Rightarrow> unit progress \<times> app" where
  "handleSnapshot_begin pf seenLoading dataUrl pixelsThrow po st =
     (if modelRef st = None then
        (case loadModel_begin seenLoading st of
           (Returned m, s1) \<Rightarrow> handleSnapshot_loaded pf dataUrl pixelsThrow po s1
         | (Rejected, s1) \<Rightarrow> (Rejected, s1)
         | (Awaiting a, s1) \<Rightarrow> (Awaiting a, s1))
      else handleSnapshot_loaded pf dataUrl pixelsThrow po st)"

definition handleSnapshot_afterLoad ::
  "platform \<Rightarrow> load_outcome \<Rightarrow> string \<Rightarrow> bool \<Rightarrow> predict_outcome \<Rightarrow> app \<Rightarrow> unit progress \<times> app" where
  "handleSnapshot_afterLoad pf oc dataUrl pixelsThrow po st =
     handleSnapshot_loaded pf dataUrl pixelsThrow po (snd (loadModel_resume AppJs pf oc st))"

definition handleSnapshot_afterCapture :: "capture_outcome \<Rightarrow> app \<Rightarrow> unit progress \<times> app" where
  "handleSnapshot_afterCapture co st =
     (let s0 = st\<lparr>capturesInFlight := capturesInFlight st - 1\<rparr> in
      case co of
        CaptureThrows \<Rightarrow> (Rejected, s0)
      | Captured uri dec po \<Rightarrow>
          (case decodeImage ''[error]'' dec (s0\<lparr>photoUri := Some uri\<rparr>) of
             (None, s1) \<Rightarrow> (Returned (), s1)
           | (Some t, s1) \<Rightarrow>
               (case classifyImage AppJs t po s1 of
                  (Thrown, s2) \<Rightarrow> (Rejected, s2)
                | (Value u, s2) \<Rightarrow> (Returned (), s2))))"

section \<open>Observations and sample states\<close>

text \<open>
  The scheduling state of the live session: the running flag of the ref and of the React
  state, the web loop's frame handle and throttle fields, the native loop's timer handle,
  and the host's pending callbacks and next handle.
\<close>

definition loopState ::
  "app \<Rightarrow> bool \<times> bool \<times> nat option \<times> int \<times> int \<times> nat option \<times> nat list \<times> nat list \<times> nat" where
  "loopState st =
     (running st, liveRunning st, rafId st, lastRun st, frameIntervalMs st, timeoutId st,
      pendingFrames st, pendingTimers st, nextHandle st)"

text \<open>
  A key that orders the numbers other than NaN in descending order: plus infinity first,
  the finite numbers by their negation, minus infinity last.
\<close>

definition jskey :: "jsnum \<Rightarrow> nat \<times> real" where
  "jskey x = (case x of PosInf \<Rightarrow> (0, 0) | Fin r \<Rightarrow> (1, - r) | NegInf \<Rightarrow> (2, 0) | NaN \<Rightarrow> (3, 0))"

text \<open>
  A list of times is \<open>spaced d l\<close> when its first element is at least \<open>d\<close> after \<open>l\<close> and
  every further element at least \<open>d\<close> after the one before.
\<close>

fun spaced :: "int \<Rightarrow> int \<Rightarrow> int list \<Rightarrow> bool" where
  "spaced d l [] = True"
| "spaced d l (x # xs) = (l + d \<le> x \<and> spaced d x xs)"

text \<open>
  The failures of one native iteration: the capture rejects, decoding throws or yields no
  tensor, the model call throws, or the model's output yields no data (an output of
  unexpected shape). The failures of one web frame: reading the pixels throws, the model
  call throws, or the output yields no data. The last kind is the one the code passes over
  without a word: \<open>data\<close> stays \<^verbatim>\<open>null\<close> and \<^verbatim>\<open>if (probs)\<close> skips the publication.
\<close>

definition iterationFails :: "capture_outcome \<Rightarrow> bool" where
  "iterationFails co =
     (case co of
        CaptureThrows \<Rightarrow> True
      | Captured uri dec po \<Rightarrow>
          (case dec of
             DecodeThrows \<Rightarrow> True
           | DecodeNull \<Rightarrow> True
           | Decoded \<Rightarrow> (case po of PredictThrows \<Rightarrow> True | DataSyncThrows \<Rightarrow> True
                          | NoData \<Rightarrow> True | Data ps \<Rightarrow> False)))"

definition frameFails :: "bool \<Rightarrow> predict_outcome \<Rightarrow> bool" where
  "frameFails pixelsThrow po =
     (pixelsThrow \<or> (case po of PredictThrows \<Rightarrow> True | DataSyncThrows \<Rightarrow> True
                       | NoData \<Rightarrow> True | Data ps \<Rightarrow> False))"

definition noDataRead :: "capture_outcome \<Rightarrow> bool" where
  "noDataRead co =
     (case co of
        CaptureThrows \<Rightarrow> False
      | Captured uri dec po \<Rightarrow>
          (case dec of
             DecodeThrows \<Rightarrow> False
           | DecodeNull \<Rightarrow> False
           | Decoded \<Rightarrow> (case po of PredictThrows \<Rightarrow> False | DataSyncThrows \<Rightarrow> False
                          | NoData \<Rightarrow> True | Data ps \<Rightarrow> False)))"

definition frameNoDataRead :: "bool \<Rightarrow> predict_outcome \<Rightarrow> bool" where
  "frameNoDataRead pixelsThrow po =
     (\<not> pixelsThrow \<and> (case po of PredictThrows \<Rightarrow> False | DataSyncThrows \<Rightarrow> False
                         | NoData \<Rightarrow> True | Data ps \<Rightarrow> False))"

text \<open>
  A component with the model loaded and the session running, on a device (\<open>liveNative\<close>)
  and in a browser with one frame callback pending and the last work done at time 1000
  (\<open>liveWeb\<close>); the device after its loop has called the camera (\<open>captureInFlight\<close>), and
  after \<^verbatim>\<open>stopLive\<close> and then \<^verbatim>\<open>startLive\<close> have run while that capture was still
  pending (\<open>restarted\<close>).
\<close>

definition liveNative :: app where
  "liveNative = app0\<lparr>modelRef := Some 1, running := True, liveRunning := True\<rparr>"

definition captureInFlight :: app where
  "captureInFlight = snd (runNativeLoop_begin liveNative)"

definition restarted :: app where
  "restarted = snd (startLive_begin Native False (stopLive captureInFlight))"

definition liveWeb :: app where
  "liveWeb = app0\<lparr>modelRef := Some 1, running := True, liveRunning := True, rafId := Some 1,
     lastRun := 1000, frameIntervalMs := 200, nextHandle := 2, pendingFrames := [1]\<rparr>"

section \<open>Properties of the ranking\<close>

text \<open>
  Without NaN the comparator orders the predictions as a key does: \<open>jskey\<close> puts the
  numbers in descending order.
\<close>

lemma jskey_inj: "(jskey x = jskey y) = (x = y)"
  by (cases x; cases y) (simp_all add: jskey_def)

lemma jskey_le: "x \<noteq> NaN \<Longrightarrow> y \<noteq> NaN \<Longrightarrow> (jskey x \<le> jskey y) = jsle y x"
  by (cases x; cases y) (simp_all add: jskey_def)

lemma notAfter_jskey:
  "probability x \<noteq> NaN \<Longrightarrow> probability y \<noteq> NaN \<Longrightarrow>
     notAfter (byProbabilityDesc x y) = (jskey (probability x) \<le> jskey (probability y))"
  by (cases "probability x"; cases "probability y")
    (simp_all add: byProbabilityDesc_def notAfter_def jskey_def)

lemma insertBy_insort_key:
  "probability x \<noteq> NaN \<Longrightarrow> \<forall>y\<in>set ys. probability y \<noteq> NaN \<Longrightarrow>
     insertBy byProbabilityDesc x ys = insort_key (\<lambda>q. jskey (probability q)) x ys"
  by (induction ys) (simp_all add: notAfter_jskey)

lemma sortBy_sort_key:
  "\<forall>y\<in>set xs. probability y \<noteq> NaN \<Longrightarrow>
     sortBy byProbabilityDesc xs = sort_key (\<lambda>q. jskey (probability q)) xs"
proof (induction xs)
  case Nil
  then show ?case by (simp add: sortBy_def)
next
  case (Cons x xs)
  then have ih: "sortBy byProbabilityDesc xs = sort_key (\<lambda>q. jskey (probability q)) xs"
    by simp
  have "\<forall>y\<in>set (sort_key (\<lambda>q. jskey (probability q)) xs). probability y \<noteq> NaN"
    using Cons.prems by simp
  with Cons.prems ih show ?case
    by (simp add: sortBy_def insertBy_insort_key)
qed

lemma sortBy_descending:
  assumes "\<forall>y\<in>set xs. probability y \<noteq> NaN"
  shows "sorted_wrt (\<lambda>a b. jsle (probability b) (probability a)) (sortBy byProbabilityDesc xs)"
proof -
  let ?ys = "sort_key (\<lambda>q. jskey (probability q)) xs"
  have "sorted (map (\<lambda>q. jskey (probability q)) ?ys)"
    by (rule sorted_sort_key)
  then have k: "sorted_wrt (\<lambda>a b. jskey (probability a) \<le> jskey (probability b)) ?ys"
    by (simp add: sorted_map)
  have "sorted_wrt (\<lambda>a b. jsle (probability b) (probability a)) ?ys"
  proof (rule sorted_wrt_mono_rel [OF _ k])
    fix a b
    assume "a \<in> set ?ys" and "b \<in> set ?ys"
      and "jskey (probability a) \<le> jskey (probability b)"
    with assms show "jsle (probability b) (probability a)"
      by (simp add: jskey_le)
  qed
  with assms show ?thesis by (simp add: sortBy_sort_key)
qed

lemma sortBy_stable:
  assumes "\<forall>y\<in>set xs. probability y \<noteq> NaN"
  shows "filter (\<lambda>q. probability q = v) (sortBy byProbabilityDesc xs)
     = filter (\<lambda>q. probability q = v) xs"
proof -
  have "filter (\<lambda>q. jskey (probability q) = jskey v) (sort_key (\<lambda>q. jskey (probability q)) xs)
          = filter (\<lambda>q. jskey (probability q) = jskey v) xs"
    by (rule sort_key_stable)
  with assms show ?thesis
    by (simp add: sortBy_sort_key jskey_inj)
qed

lemma length_mapIndexed: "length (mapIndexed labels k ps) = length ps"
  by (induction ps arbitrary: k) simp_all

lemma probability_mapIndexed: "map probability (mapIndexed labels k ps) = ps"
  by (induction ps arbitrary: k) simp_all

lemma toPredictions_no_NaN:
  assumes "list_all (\<lambda>p. p \<noteq> NaN) probs"
  shows "\<forall>y\<in>set (toPredictions labels probs). probability y \<noteq> NaN"
proof
  fix y
  assume "y \<in> set (toPredictions labels probs)"
  then have "probability y \<in> set (map probability (toPredictions labels probs))"
    by simp
  then have "probability y \<in> set probs"
    by (simp only: toPredictions_def probability_mapIndexed)
  with assms show "probability y \<noteq> NaN"
    by (simp add: list_all_iff)
qed

lemma nth_mapIndexed:
  "i < length ps \<Longrightarrow>
     mapIndexed labels k ps ! i = \<lparr>className = labelFor labels (k + i), probability = ps ! i\<rparr>"
proof (induction ps arbitrary: k i)
  case Nil
  then show ?case by simp
next
  case (Cons p ps)
  show ?case
  proof (cases i)
    case 0
    then show ?thesis by simp
  next
    case (Suc j)
    with Cons.prems have "j < length ps" by simp
    from Cons.IH [OF this, of "Suc k"] Suc show ?thesis by simp
  qed
qed

lemma nth_toPredictions:
  "i < length probs \<Longrightarrow>
     toPredictions labels probs ! i = \<lparr>className = labelFor labels i, probability = probs ! i\<rparr>"
  by (simp add: toPredictions_def nth_mapIndexed)

lemma decimal_3: "decimal 3 = ''3''"
  by (simp add: decimal.simps digit_def)

lemma decimal_Suc3: "decimal (Suc (Suc (Suc 0))) = ''3''"
  using decimal_3 by (simp add: numeral_3_eq_3)

lemmas rank_defs = rank_def sortBy_def toPredictions_def labelFor_def LABELS_def
  byProbabilityDesc_def notAfter_def

lemma rank_example:
  "rank LABELS [Fin 0.7, Fin 0.2, Fin 0.1] =
     [\<lparr>className = ''OR'', probability = Fin 0.7\<rparr>,
      \<lparr>className = ''AND'', probability = Fin 0.2\<rparr>,
      \<lparr>className = ''NOT'', probability = Fin 0.1\<rparr>]"
  by (simp add: rank_defs)

text \<open>
  An output vector with a NaN in it: the comparator returns NaN for every pair with the
  NaN entry, the sort takes that for 0, and the list that is published is not in
  non-increasing order (0.7 comes after 0.2).
\<close>

theorem rank_NaN_counterexample:
  "rank LABELS [Fin 0.2, NaN, Fin 0.7] =
     [\<lparr>className = ''OR'', probability = Fin 0.2\<rparr>,
      \<lparr>className = ''AND'', probability = NaN\<rparr>,
      \<lparr>className = ''NOT'', probability = Fin 0.7\<rparr>]
   \<and> \<not> sorted_wrt (\<lambda>a b. jsle (probability b) (probability a)) (rank LABELS [Fin 0.2, NaN, Fin 0.7])"
  by (simp add: rank_defs)

text \<open>
  C5, amended. Every ranked list made from an output vector without NaN is sorted
  non-increasing by probability, and its entries of equal probability keep the order of
  the model's output indices (the sort is stable); labels OR, AND, NOT with output 0.7,
  0.2, 0.1 give OR 0.7, AND 0.2, NOT 0.1.
\<close>

theorem rank_sorted_stable:
  "(list_all (\<lambda>p. p \<noteq> NaN) probs \<longrightarrow>
      sorted_wrt (\<lambda>a b. jsle (probability b) (probability a)) (rank labels probs)
      \<and> filter (\<lambda>q. probability q = v) (rank labels probs)
          = filter (\<lambda>q. probability q = v) (toPredictions labels probs))
   \<and> rank LABELS [Fin 0.7, Fin 0.2, Fin 0.1] =
       [\<lparr>className = ''OR'', probability = Fin 0.7\<rparr>,
        \<lparr>className = ''AND'', probability = Fin 0.2\<rparr>,
        \<lparr>className = ''NOT'', probability = Fin 0.1\<rparr>]"
proof -
  have "sorted_wrt (\<lambda>a b. jsle (probability b) (probability a)) (rank labels probs)
      \<and> filter (\<lambda>q. probability q = v) (rank labels probs)
          = filter (\<lambda>q. probability q = v) (toPredictions labels probs)"
    if "list_all (\<lambda>p. p \<noteq> NaN) probs"
    using sortBy_descending [OF toPredictions_no_NaN [OF that, of labels]]
      sortBy_stable [OF toPredictions_no_NaN [OF that, of labels], of v]
    by (simp add: rank_def)
  with rank_example show ?thesis by blast
qed

theorem rank_sorted_stable_witness:
  "list_all (\<lambda>p. p \<noteq> NaN) [Fin 0.2, PosInf, Fin 0.7, Fin 0.2]
   \<and> rank LABELS [Fin 0.2, PosInf, Fin 0.7, Fin 0.2] =
       [\<lparr>className = ''AND'', probability = PosInf\<rparr>,
        \<lparr>className = ''NOT'', probability = Fin 0.7\<rparr>,
        \<lparr>className = ''OR'', probability = Fin 0.2\<rparr>,
        \<lparr>className = ''class_3'', probability = Fin 0.2\<rparr>]
   \<and> sorted_wrt (\<lambda>a b. jsle (probability b) (probability a))
        (rank LABELS [Fin 0.2, PosInf, Fin 0.7, Fin 0.2])
   \<and> filter (\<lambda>q. probability q = Fin 0.2) (rank LABELS [Fin 0.2, PosInf, Fin 0.7, Fin 0.2])
       = [\<lparr>className = ''OR'', probability = Fin 0.2\<rparr>,
          \<lparr>className = ''class_3'', probability = Fin 0.2\<rparr>]"
  using rank_sorted_stable [of "[Fin 0.2, PosInf, Fin 0.7, Fin 0.2]" LABELS "Fin 0.2"]
  by (simp add: rank_defs decimal_Suc3)

text \<open>
  C9. The placeholder is chosen for every falsy configured label: when the label at an
  index inside the configured list is the empty string, the prediction at that index is
  named \<open>class_<i>\<close>, exactly as for an index beyond the list.
\<close>

theorem placeholder_for_empty_label:
  "i < length probs \<Longrightarrow> i < length labels \<Longrightarrow> labels ! i = [] \<Longrightarrow>
     className (toPredictions labels probs ! i) = ''class_'' @ decimal i
     \<and> labelFor labels i = ''class_'' @ decimal i"
  by (simp add: nth_toPredictions labelFor_def)

theorem placeholder_for_empty_label_witness:
  "(1::nat) < length [Fin 0.5, Fin 0.3, Fin 0.2] \<and> 1 < length [''OR'', [], ''NOT'']
   \<and> [''OR'', [], ''NOT''] ! 1 = []
   \<and> className (toPredictions [''OR'', [], ''NOT''] [Fin 0.5, Fin 0.3, Fin 0.2] ! 1) = ''class_1''
   \<and> labelFor [''OR'', [], ''NOT''] 1 = ''class_1''"
  using placeholder_for_empty_label [of 1 "[Fin 0.5, Fin 0.3, Fin 0.2]" "[''OR'', [], ''NOT'']"]
  by (simp add: decimal.simps digit_def)

section \<open>Unfolding the primitives\<close>

lemmas prims = emit_def newTensor_def dispose_def endScope_def tidy_def predictData_def framePipeline_def
  predictFromTensor_def predictInline_def infer_def decodeImage_def classifyImage_def

lemmas web_defs = step_def armFrame_def requestAnimationFrame_def publishFrame_def

lemmas native_defs = runNativeLoop_resume_def nativeBody_def rearm_def setTimeout_def

lemmas all_splits = option.splits predict_outcome.splits outcome.splits prod.splits variant.splits
  decode_outcome.splits capture_outcome.splits platform.splits load_outcome.splits progress.splits

lemma loopState_emit: "loopState (emit m st) = loopState st"
  by (simp add: loopState_def emit_def)

lemma capturesInFlight_emit: "capturesInFlight (emit m st) = capturesInFlight st"
  by (simp add: emit_def)

lemma loopState_classifyImage: "loopState (snd (classifyImage v t po st)) = loopState st"
  by (simp add: loopState_def prims split: all_splits)

lemma loopState_nativeBody: "loopState (snd (nativeBody v co st)) = loopState st"
proof (cases co)
  case CaptureThrows
  then show ?thesis by (simp add: nativeBody_def)
next
  case (Captured uri dec po)
  show ?thesis
  proof (cases dec)
    case Decoded
    have "loopState (snd (classifyImage v (nextTensor st) po
             (snd (newTensor (st\<lparr>photoUri := Some uri\<rparr>))))) = loopState st"
      by (simp add: loopState_classifyImage) (simp add: loopState_def newTensor_def)
    with Captured Decoded show ?thesis
      by (simp add: nativeBody_def decodeImage_def newTensor_def)
  qed (simp_all add: Captured nativeBody_def decodeImage_def emit_def loopState_def)
qed

lemma loopState_loadModel_begin: "loopState (snd (loadModel_begin b st)) = loopState st"
  by (simp add: loadModel_begin_def loopState_def)

lemma loopState_loadModel_resume: "loopState (snd (loadModel_resume v pf oc st)) = loopState st"
  by (cases oc; cases v) (simp_all add: loadModel_resume_def loadFailed_def emit_def loopState_def)

lemma loopState_framePipeline: "loopState (snd (tidy (framePipeline px po) st)) = loopState st"
  by (simp add: prims loopState_def split: option.splits predict_outcome.splits)

section \<open>Labels beyond the configured list\<close>

text \<open>
  Four output values with three labels, in the running web loop: the frame is processed
  and the ranked list published with \<open>class_3\<close> in it, and the console stays empty. No
  diagnostic is written, so none is written exactly once.
\<close>

theorem config_mismatch_counterexample:
  "console liveWeb = []
   \<and> fst (step 1200 False (Data [Fin 0.1, Fin 0.2, Fin 0.3, Fin 0.4]) liveWeb) = Worked
   \<and> console (snd (step 1200 False (Data [Fin 0.1, Fin 0.2, Fin 0.3, Fin 0.4]) liveWeb)) = []
   \<and> predictions (snd (step 1200 False (Data [Fin 0.1, Fin 0.2, Fin 0.3, Fin 0.4]) liveWeb))
       = [\<lparr>className = ''class_3'', probability = Fin 0.4\<rparr>,
          \<lparr>className = ''NOT'', probability = Fin 0.3\<rparr>,
          \<lparr>className = ''AND'', probability = Fin 0.2\<rparr>,
          \<lparr>className = ''OR'', probability = Fin 0.1\<rparr>]"
  by (simp add: liveWeb_def app0_def web_defs prims rank_defs decimal_Suc3)

lemma publishFrame_Data:
  "modelRef st \<noteq> None \<Longrightarrow>
     predictions (publishFrame False (Data probs) st) = rank LABELS probs
     \<and> console (publishFrame False (Data probs) st) = console st"
  by (auto simp: publishFrame_def prims)

lemma step_Data:
  assumes "fst (step now False (Data probs) st) = Worked"
  shows "predictions (snd (step now False (Data probs) st)) = rank LABELS probs
     \<and> console (snd (step now False (Data probs) st)) = console st"
proof -
  let ?s2 = "(armFrame st)\<lparr>lastRun := now\<rparr>"
  from assms have w: "step now False (Data probs) st = (Worked, publishFrame False (Data probs) ?s2)"
    and m: "modelRef ?s2 \<noteq> None"
    by (auto simp: step_def Let_def split: if_splits)
  have "console ?s2 = console st"
    by (simp add: armFrame_def requestAnimationFrame_def)
  with publishFrame_Data [OF m, of probs] w show ?thesis by simp
qed

text \<open>
  C4, amended. When the output vector is longer than the label list, every index \<open>i\<close>
  beyond the list gets the placeholder label \<open>class_<i>\<close> (with four values and the three
  labels of the app, the fourth prediction is \<open>class_3\<close> with its value); the web loop's
  frame and \<^verbatim>\<open>predictFromTensor\<close> complete with the ranked list, and they write nothing
  to the console: no diagnostic is emitted.
\<close>

theorem placeholder_beyond_labels:
  "(length labels \<le> i \<and> i < length probs \<longrightarrow>
      toPredictions labels probs ! i
        = \<lparr>className = ''class_'' @ decimal i, probability = probs ! i\<rparr>)
   \<and> (fst (step now False (Data probs) st) = Worked \<longrightarrow>
        predictions (snd (step now False (Data probs) st)) = rank LABELS probs
        \<and> console (snd (step now False (Data probs) st)) = console st)
   \<and> (modelRef st \<noteq> None \<longrightarrow>
        fst (predictFromTensor (Data probs) st) = Value (Some (rank LABELS probs))
        \<and> console (snd (predictFromTensor (Data probs) st)) = console st)
   \<and> toPredictions LABELS [a, b, c, d] ! 3 = \<lparr>className = ''class_3'', probability = d\<rparr>"
proof -
  have a: "length labels \<le> i \<and> i < length probs \<longrightarrow>
      toPredictions labels probs ! i
        = \<lparr>className = ''class_'' @ decimal i, probability = probs ! i\<rparr>"
    by (simp add: nth_toPredictions labelFor_def)
  have c: "modelRef st \<noteq> None \<longrightarrow>
        fst (predictFromTensor (Data probs) st) = Value (Some (rank LABELS probs))
        \<and> console (snd (predictFromTensor (Data probs) st)) = console st"
    by (auto simp: prims)
  have d: "toPredictions LABELS [a, b, c, d] ! 3 = \<lparr>className = ''class_3'', probability = d\<rparr>"
    by (simp add: nth_toPredictions labelFor_def LABELS_def decimal_3)
  from a step_Data c d show ?thesis by blast
qed

theorem placeholder_beyond_labels_witness:
  "length LABELS \<le> 3 \<and> (3::nat) < length [Fin 0.1, Fin 0.2, Fin 0.3, Fin 0.4]
   \<and> toPredictions LABELS [Fin 0.1, Fin 0.2, Fin 0.3, Fin 0.4] ! 3 = \<lparr>className = ''class_3'', probability = Fin 0.4\<rparr>
   \<and> fst (step 1200 False (Data [Fin 0.1, Fin 0.2, Fin 0.3, Fin 0.4]) liveWeb) = Worked
   \<and> predictions (snd (step 1200 False (Data [Fin 0.1, Fin 0.2, Fin 0.3, Fin 0.4]) liveWeb))
        = rank LABELS [Fin 0.1, Fin 0.2, Fin 0.3, Fin 0.4]
   \<and> console (snd (step 1200 False (Data [Fin 0.1, Fin 0.2, Fin 0.3, Fin 0.4]) liveWeb)) = console liveWeb
   \<and> modelRef liveWeb \<noteq> None
   \<and> fst (predictFromTensor (Data [Fin 0.1, Fin 0.2, Fin 0.3, Fin 0.4]) liveWeb)
        = Value (Some (rank LABELS [Fin 0.1, Fin 0.2, Fin 0.3, Fin 0.4]))"
  using placeholder_beyond_labels [of LABELS 3 "[Fin 0.1, Fin 0.2, Fin 0.3, Fin 0.4]" 1200 liveWeb]
  by (simp add: liveWeb_def app0_def web_defs prims LABELS_def decimal_3)

section \<open>Calls to the loader while a load is in flight\<close>

text \<open>
  A first call starts a load and waits. A second call, made while that load is in flight
  and seeing the loading flag, returns \<^verbatim>\<open>null\<close> at once, although the load it did not
  wait for yields the handle 7.
\<close>

theorem concurrent_load_counterexample:
  "fst (loadModel_begin False app0) = Awaiting AtLoad
   \<and> loadModel_begin True (snd (loadModel_begin False app0))
       = (Returned None, snd (loadModel_begin False app0))
   \<and> fst (loadModel_resume AppJs Web (Loaded 7) (snd (loadModel_begin False app0))) = Some 7"
  by (simp add: loadModel_begin_def loadModel_resume_def app0_def)

text \<open>
  C1, amended. A call to the loader that sees the loading flag set starts no load and
  changes nothing: it returns at once what \<^verbatim>\<open>modelRef\<close> holds at that moment, which is
  \<^verbatim>\<open>null\<close> until the load in flight has stored its handle. A load that succeeds returns
  its handle and stores it in \<^verbatim>\<open>modelRef\<close>, and every call made while \<^verbatim>\<open>modelRef\<close>
  holds a handle returns that handle without loading.
\<close>

theorem loadModel_while_loading:
  "(seenLoading \<longrightarrow> loadModel_begin seenLoading st = (Returned (modelRef st), st))
   \<and> fst (loadModel_resume v pf (Loaded m) st) = Some m
   \<and> modelRef (snd (loadModel_resume v pf (Loaded m) st)) = Some m
   \<and> (modelRef st = Some m \<longrightarrow> loadModel_begin b st = (Returned (Some m), st))"
  by (simp add: loadModel_begin_def loadModel_resume_def emit_def split: variant.splits)

theorem loadModel_while_loading_witness:
  "loadModel_begin True (snd (loadModel_begin False app0))
     = (Returned (modelRef (snd (loadModel_begin False app0))), snd (loadModel_begin False app0))
   \<and> modelRef (snd (loadModel_begin False app0)) = None
   \<and> modelRef (snd (loadModel_resume AppJs Web (Loaded 7) (snd (loadModel_begin False app0)))) = Some 7
   \<and> loadModel_begin False (snd (loadModel_resume AppJs Web (Loaded 7) (snd (loadModel_begin False app0))))
       = (Returned (Some 7), snd (loadModel_resume AppJs Web (Loaded 7) (snd (loadModel_begin False app0))))"
  using loadModel_while_loading [of True "snd (loadModel_begin False app0)" AppJs Web 7 False]
    loadModel_while_loading [of False "snd (loadModel_resume AppJs Web (Loaded 7) (snd (loadModel_begin False app0)))" AppJs Web 7 False]
  by (simp add: loadModel_begin_def loadModel_resume_def app0_def)

section \<open>The web loop's throttle\<close>

lemma step_frameInterval: "frameIntervalMs (snd (step now px po st)) = frameIntervalMs st"
  by (simp add: web_defs prims Let_def split: option.splits predict_outcome.splits outcome.splits prod.splits)

lemma step_lastRun: "lastRun (snd (step now px po st)) = (if now - lastRun st < frameIntervalMs st then lastRun st else now)"
  by (simp add: web_defs prims Let_def split: option.splits predict_outcome.splits outcome.splits prod.splits)

lemma step_skipped: "(fst (step now px po st) = Skipped) = (now - lastRun st < frameIntervalMs st)"
  by (simp add: step_def armFrame_def requestAnimationFrame_def Let_def)

lemma step_skips: "now - lastRun st < frameIntervalMs st \<Longrightarrow> step now px po st = (Skipped, armFrame st)"
  by (simp add: step_def armFrame_def requestAnimationFrame_def Let_def)

lemma step_rearms:
  "rafId (snd (step now px po st)) = Some (nextHandle st)
   \<and> nextHandle st \<in> set (pendingFrames (snd (step now px po st)))"
  by (simp add: web_defs prims Let_def split: option.splits predict_outcome.splits outcome.splits prod.splits)

lemma runTicks_spaced:
  "spaced (frameIntervalMs st) (lastRun st) (map fst (filter (\<lambda>(t, r). r \<noteq> Skipped) (runTicks st ticks)))"
proof (induction ticks arbitrary: st)
  case Nil
  then show ?case by simp
next
  case (Cons tk ticks)
  obtain now px po where tk: "tk = (now, px, po)" by (cases tk)
  obtain r s1 where st: "step now px po st = (r, s1)" by (cases "step now px po st")
  have fi: "frameIntervalMs s1 = frameIntervalMs st"
    using step_frameInterval [of now px po st] st by simp
  have lr: "lastRun s1 = (if now - lastRun st < frameIntervalMs st then lastRun st else now)"
    using step_lastRun [of now px po st] st by simp
  have sk: "(r = Skipped) = (now - lastRun st < frameIntervalMs st)"
    using step_skipped [of now px po st] st by simp
  from Cons.IH [of s1] fi lr sk show ?case
    by (auto simp: tk st)
qed

lemma spaced_filter: "spaced d l xs \<Longrightarrow> 0 \<le> d \<Longrightarrow> l' \<le> l \<Longrightarrow> spaced d l' (filter P xs)"
proof (induction xs arbitrary: l l')
  case Nil
  then show ?case by simp
next
  case (Cons x xs)
  from Cons.prems have a: "l + d \<le> x" and b: "spaced d x xs" by simp_all
  show ?case
  proof (cases "P x")
    case True
    have "spaced d x (filter P xs)" using Cons.IH [OF b Cons.prems(2), of x] by simp
    with True a Cons.prems(3) show ?thesis by simp
  next
    case False
    have "l' \<le> x" using a Cons.prems by linarith
    from Cons.IH [OF b Cons.prems(2) this] False show ?thesis by simp
  qed
qed

lemma spaced_last: "spaced d l xs \<Longrightarrow> xs \<noteq> [] \<Longrightarrow> l + d * int (length xs) \<le> last xs"
proof (induction xs arbitrary: l)
  case Nil
  then show ?case by simp
next
  case (Cons x xs)
  from Cons.prems have a: "l + d \<le> x" and b: "spaced d x xs" by simp_all
  show ?case
  proof (cases "xs = []")
    case True
    with a show ?thesis by simp
  next
    case False
    from Cons.IH [OF b False] a False show ?thesis
      by (simp add: algebra_simps)
  qed
qed

lemma spaced_window:
  assumes "spaced 200 l xs"
  shows "length (filter (\<lambda>t. T \<le> t \<and> t < T + 1000) xs) \<le> 5"
proof -
  let ?ys = "filter (\<lambda>t. T \<le> t \<and> t < T + 1000) xs"
  have sp: "spaced 200 l ?ys" using spaced_filter [OF assms, of l] by simp
  show ?thesis
  proof (cases ?ys)
    case Nil
    then show ?thesis by simp
  next
    case (Cons y zs)
    have yin: "y \<in> set ?ys" using Cons by simp
    then have y: "T \<le> y" by simp
    from sp Cons have z: "spaced 200 y zs" by simp
    show ?thesis
    proof (cases "zs = []")
      case True
      with Cons show ?thesis by simp
    next
      case False
      have "last zs \<in> set ?ys" using Cons False by (metis last_in_set list.set_intros(2))
      then have "last zs < T + 1000" by simp
      moreover have "y + 200 * int (length zs) \<le> last zs" using spaced_last [OF z False] .
      ultimately have "length zs < 5" using y by linarith
      with Cons show ?thesis by simp
    qed
  qed
qed

lemma filter_passes:
  "length (filter (\<lambda>(t, r). r \<noteq> Skipped \<and> T \<le> t \<and> t < U) rs)
     = length (filter (\<lambda>t. T \<le> t \<and> t < U) (map fst (filter (\<lambda>(t, r). r \<noteq> Skipped) rs)))"
  by (induction rs) auto

text \<open>
  C6. In the web loop a tick whose time is less than the frame interval after the last
  executed one does nothing but re-arm the next animation frame; a tick that goes past the
  throttle comes at least the interval after the last executed one; every tick re-arms.
  With the interval at 200 ms (the value \<^verbatim>\<open>part_000\<close> sets; \<^verbatim>\<open>App.js\<close> sets 180), among
  the ticks of any run at most 5 of those whose time lies in a window of 1000 ms, from
  \<open>T\<close> up to but not including \<open>T + 1000\<close>, go past the throttle, whatever the times of the
  ticks are.
\<close>

theorem web_loop_throttle:
  "(now - lastRun st < frameIntervalMs st \<longrightarrow> step now px po st = (Skipped, armFrame st))
   \<and> (fst (step now px po st) \<noteq> Skipped \<longrightarrow> frameIntervalMs st \<le> now - lastRun st)
   \<and> rafId (snd (step now px po st)) = Some (nextHandle st)
   \<and> nextHandle st \<in> set (pendingFrames (snd (step now px po st)))
   \<and> (frameIntervalMs st = 200 \<longrightarrow>
        length (filter (\<lambda>(t, r). r \<noteq> Skipped \<and> T \<le> t \<and> t < T + 1000) (runTicks st ticks)) \<le> 5)"
proof -
  have a: "now - lastRun st < frameIntervalMs st \<longrightarrow> step now px po st = (Skipped, armFrame st)"
    using step_skips by blast
  have b: "fst (step now px po st) \<noteq> Skipped \<longrightarrow> frameIntervalMs st \<le> now - lastRun st"
    using step_skipped [of now px po st] by auto
  have d: "frameIntervalMs st = 200 \<longrightarrow>
        length (filter (\<lambda>(t, r). r \<noteq> Skipped \<and> T \<le> t \<and> t < T + 1000) (runTicks st ticks)) \<le> 5"
  proof
    assume h: "frameIntervalMs st = 200"
    have "spaced 200 (lastRun st) (map fst (filter (\<lambda>(t, r). r \<noteq> Skipped) (runTicks st ticks)))"
      using runTicks_spaced [of st ticks] h by simp
    from spaced_window [OF this, of T] show
      "length (filter (\<lambda>(t, r). r \<noteq> Skipped \<and> T \<le> t \<and> t < T + 1000) (runTicks st ticks)) \<le> 5"
      by (simp add: filter_passes)
  qed
  from a b step_rearms [of now px po st] d show ?thesis by blast
qed

theorem web_loop_throttle_witness:
  "1100 - lastRun liveWeb < frameIntervalMs liveWeb
   \<and> step 1100 False NoData liveWeb = (Skipped, armFrame liveWeb)
   \<and> fst (step 1200 False NoData liveWeb) \<noteq> Skipped
   \<and> frameIntervalMs liveWeb \<le> 1200 - lastRun liveWeb
   \<and> frameIntervalMs liveWeb = 200
   \<and> length (filter (\<lambda>(t, r). r \<noteq> Skipped \<and> 1000 \<le> t \<and> t < 1000 + 1000)
        (runTicks liveWeb [(1200, False, NoData), (1216, False, NoData), (1400, False, NoData)])) \<le> 5"
  using web_loop_throttle [of 1100 liveWeb False NoData 1000
      "[(1200, False, NoData), (1216, False, NoData), (1400, False, NoData)]"]
    web_loop_throttle [of 1200 liveWeb False NoData 1000
      "[(1200, False, NoData), (1216, False, NoData), (1400, False, NoData)]"]
  by (simp add: liveWeb_def app0_def step_def armFrame_def requestAnimationFrame_def Let_def)

section \<open>An iteration in flight when the session stops\<close>

lemma stopLive_not_running: "\<not> running (stopLive st)"
  by (simp add: stopLive_def stopNativeLoop_def stopWebLoop_def cancelAnimationFrame_def clearTimeout_def
      split: option.splits)

lemma resume_not_running:
  assumes "\<not> running st"
  shows "loopState (runNativeLoop_resume v co st) = loopState st"
proof -
  let ?s0 = "st\<lparr>capturesInFlight := capturesInFlight st - 1\<rparr>"
  obtain r s1 where b: "nativeBody v co ?s0 = (r, s1)" by (cases "nativeBody v co ?s0")
  have l: "loopState s1 = loopState st"
    using loopState_nativeBody [of v co ?s0] b by (simp add: loopState_def)
  then have "\<not> running s1" using assms by (simp add: loopState_def)
  with l b show ?thesis
    by (cases r) (simp_all add: runNativeLoop_resume_def rearm_def emit_def loopState_def)
qed

lemma resume_running:
  assumes "running st"
  shows "timeoutId (runNativeLoop_resume v co st) = Some (nextHandle st)
     \<and> pendingTimers (runNativeLoop_resume v co st) = pendingTimers st @ [nextHandle st]"
proof -
  let ?s0 = "st\<lparr>capturesInFlight := capturesInFlight st - 1\<rparr>"
  obtain r s1 where b: "nativeBody v co ?s0 = (r, s1)" by (cases "nativeBody v co ?s0")
  have l: "loopState s1 = loopState st"
    using loopState_nativeBody [of v co ?s0] b by (simp add: loopState_def)
  with assms have "running s1" and "nextHandle s1 = nextHandle st"
    and "pendingTimers s1 = pendingTimers st"
    by (simp_all add: loopState_def)
  with b show ?thesis
    by (cases r) (simp_all add: runNativeLoop_resume_def rearm_def setTimeout_def emit_def)
qed

lemma resume_publishes:
  assumes "modelRef st \<noteq> None"
  shows "predictions (runNativeLoop_resume v (Captured uri Decoded (Data ps)) st) = rank LABELS ps
     \<and> photoUri (runNativeLoop_resume v (Captured uri Decoded (Data ps)) st) = Some uri"
  using assms by (auto simp: native_defs prims split: variant.splits)

text \<open>
  A native iteration is waiting for its capture when \<^verbatim>\<open>stopLive\<close> runs. The capture then
  arrives: the running flag is cleared, and the iteration still writes its ranked result
  to \<open>predictions\<close>. And when \<^verbatim>\<open>startLive\<close> has run again before the capture arrives, the
  flag is set once more and the old iteration arms the timer.
\<close>

theorem stop_in_flight_counterexample:
  "running (stopLive captureInFlight) = False
   \<and> predictions (stopLive captureInFlight) = []
   \<and> predictions (runNativeLoop_resume Part000 (Captured ''photo'' Decoded (Data [Fin 0.7, Fin 0.2, Fin 0.1]))
        (stopLive captureInFlight))
       = [\<lparr>className = ''OR'', probability = Fin 0.7\<rparr>,
          \<lparr>className = ''AND'', probability = Fin 0.2\<rparr>,
          \<lparr>className = ''NOT'', probability = Fin 0.1\<rparr>]
   \<and> capturesInFlight restarted = 2
   \<and> pendingTimers restarted = []
   \<and> pendingTimers (runNativeLoop_resume Part000 (Captured ''photo'' Decoded (Data [Fin 0.7, Fin 0.2, Fin 0.1]))
        restarted) = [1]"
  by (simp add: restarted_def captureInFlight_def liveNative_def app0_def runNativeLoop_begin_def
      stopLive_def stopNativeLoop_def stopWebLoop_def startLive_begin_def startLive_model_def
      withModel_def enterRunning_def native_defs prims rank_defs)

text \<open>
  C2, amended. \<^verbatim>\<open>stopLive\<close> clears the running flag, which a native iteration reads
  only in its \<^verbatim>\<open>finally\<close> block, before re-arming. An iteration that completes right
  after \<^verbatim>\<open>stopLive\<close>, or at any time at which the flag is cleared, does not re-arm: it
  schedules no timer and leaves the timer handle, the frame handle and the rest of the
  scheduling state as they are, whatever the capture, the decoder and the model did. An
  iteration that completes when the flag is set (the session was started again while the
  capture was pending) arms the timer. In neither case is the result discarded: with the
  model loaded, a decoded image and data read from the model, the iteration sets the
  photo and publishes the ranked predictions, whatever the flag.
\<close>

theorem no_rearm_after_stop:
  "\<not> running (stopLive s)
   \<and> loopState (runNativeLoop_resume v co (stopLive s)) = loopState (stopLive s)
   \<and> (\<not> running st \<longrightarrow> loopState (runNativeLoop_resume v co st) = loopState st)
   \<and> (running st \<longrightarrow>
        timeoutId (runNativeLoop_resume v co st) = Some (nextHandle st)
        \<and> pendingTimers (runNativeLoop_resume v co st) = pendingTimers st @ [nextHandle st])
   \<and> (modelRef st \<noteq> None \<longrightarrow>
        predictions (runNativeLoop_resume v (Captured uri Decoded (Data ps)) st) = rank LABELS ps
        \<and> photoUri (runNativeLoop_resume v (Captured uri Decoded (Data ps)) st) = Some uri)"
proof -
  have a: "loopState (runNativeLoop_resume v co (stopLive s)) = loopState (stopLive s)"
    using resume_not_running [OF stopLive_not_running] .
  from stopLive_not_running a resume_not_running resume_running resume_publishes
  show ?thesis by blast
qed

theorem no_rearm_after_stop_witness:
  "\<not> running (stopLive captureInFlight)
   \<and> loopState (runNativeLoop_resume Part000 (Captured ''photo'' Decoded (Data [Fin 0.7, Fin 0.2, Fin 0.1]))
        (stopLive captureInFlight))
       = loopState (stopLive captureInFlight)
   \<and> pendingTimers (runNativeLoop_resume Part000 (Captured ''photo'' Decoded (Data [Fin 0.7, Fin 0.2, Fin 0.1]))
        (stopLive captureInFlight)) = []
   \<and> running restarted
   \<and> timeoutId (runNativeLoop_resume Part000 (Captured ''photo'' Decoded (Data [Fin 0.7, Fin 0.2, Fin 0.1]))
        restarted) = Some 1
   \<and> modelRef (stopLive captureInFlight) \<noteq> None
   \<and> predictions (runNativeLoop_resume Part000 (Captured ''photo'' Decoded (Data [Fin 0.7, Fin 0.2, Fin 0.1]))
        (stopLive captureInFlight)) = rank LABELS [Fin 0.7, Fin 0.2, Fin 0.1]
   \<and> photoUri (runNativeLoop_resume Part000 (Captured ''photo'' Decoded (Data [Fin 0.7, Fin 0.2, Fin 0.1]))
        (stopLive captureInFlight)) = Some ''photo''"
  using no_rearm_after_stop [of captureInFlight Part000
      "Captured ''photo'' Decoded (Data [Fin 0.7, Fin 0.2, Fin 0.1])" "stopLive captureInFlight"
      "''photo''" "[Fin 0.7, Fin 0.2, Fin 0.1]"]
    no_rearm_after_stop [of captureInFlight Part000
      "Captured ''photo'' Decoded (Data [Fin 0.7, Fin 0.2, Fin 0.1])" restarted
      "''photo''" "[Fin 0.7, Fin 0.2, Fin 0.1]"]
  by (simp add: restarted_def captureInFlight_def liveNative_def app0_def runNativeLoop_begin_def
      stopLive_def stopNativeLoop_def stopWebLoop_def startLive_begin_def startLive_model_def
      withModel_def enterRunning_def loopState_def)

section \<open>Tensors when the model call throws\<close>

text \<open>
  C3. In the native loop, when the image is decoded and \<^verbatim>\<open>predict\<close> throws, the throw
  leaves \<^verbatim>\<open>tf.tidy\<close> and skips \<^verbatim>\<open>tf.dispose([imageTensor, resized, normalized])\<close>: the
  decoded image, the resized tensor, the quotient and the normalized tensor, all created
  in this iteration, are still live when it ends. (The tensors live before the iteration
  have identifiers below the next one to be handed out.)
\<close>

theorem native_predict_throws_leaks:
  "modelRef st \<noteq> None \<and> list_all (\<lambda>t. t < nextTensor st) (liveTensors st) \<longrightarrow>
     liveTensors (runNativeLoop_resume v (Captured uri Decoded PredictThrows) st)
       = [nextTensor st + 3, nextTensor st + 2, nextTensor st + 1, nextTensor st] @ liveTensors st"
proof
  assume h: "modelRef st \<noteq> None \<and> list_all (\<lambda>t. t < nextTensor st) (liveTensors st)"
  then have old: "\<And>t. t \<in> set (liveTensors st) \<Longrightarrow> t < Suc (Suc (Suc (Suc (nextTensor st))))"
    by (fastforce simp: list_all_iff)
  from h old show "liveTensors (runNativeLoop_resume v (Captured uri Decoded PredictThrows) st)
       = [nextTensor st + 3, nextTensor st + 2, nextTensor st + 1, nextTensor st] @ liveTensors st"
    by (auto simp: native_defs prims filter_id_conv split: variant.splits)
qed

theorem native_predict_throws_leaks_witness:
  "modelRef (snd (runNativeLoop_begin liveNative)) \<noteq> None
   \<and> list_all (\<lambda>t. t < nextTensor (snd (runNativeLoop_begin liveNative)))
         (liveTensors (snd (runNativeLoop_begin liveNative)))
   \<and> liveTensors (snd (runNativeLoop_begin liveNative)) = []
   \<and> liveTensors (runNativeLoop_resume AppJs (Captured ''photo'' Decoded PredictThrows)
        (snd (runNativeLoop_begin liveNative))) = [3, 2, 1, 0]"
  using native_predict_throws_leaks [of "snd (runNativeLoop_begin liveNative)" AppJs "''photo''"]
  by (simp add: liveNative_def app0_def runNativeLoop_begin_def)

section \<open>A failing iteration\<close>

lemma classifyImage_throws:
  assumes "modelRef st \<noteq> None" and "po = PredictThrows \<or> po = DataSyncThrows"
  shows "fst (classifyImage v t po st) = Thrown
     \<and> predictions (snd (classifyImage v t po st)) = predictions st
     \<and> console (snd (classifyImage v t po st)) = console st"
  using assms by (auto simp: prims split: variant.splits)

lemma classifyImage_NoData:
  assumes "modelRef st \<noteq> None"
  shows "fst (classifyImage v t NoData st) = Value ()
     \<and> predictions (snd (classifyImage v t NoData st)) = predictions st
     \<and> console (snd (classifyImage v t NoData st)) = console st"
  using assms by (auto simp: prims split: variant.splits)

lemma nativeBody_fails:
  assumes "modelRef st \<noteq> None" and "iterationFails co"
  shows "predictions (snd (nativeBody v co st)) = predictions st
     \<and> (if noDataRead co
         then fst (nativeBody v co st) = Value ()
              \<and> console (snd (nativeBody v co st)) = console st
         else (case fst (nativeBody v co st) of
                 Thrown \<Rightarrow> console (snd (nativeBody v co st)) = console st
               | Value u \<Rightarrow> length (console st) < length (console (snd (nativeBody v co st)))
                      \<and> take (length (console st)) (console (snd (nativeBody v co st)))
                          = console st))"
proof (cases co)
  case CaptureThrows
  then show ?thesis by (simp add: nativeBody_def noDataRead_def)
next
  case (Captured uri dec po)
  show ?thesis
  proof (cases dec)
    case Decoded
    let ?s1 = "snd (newTensor (st\<lparr>photoUri := Some uri\<rparr>))"
    have m: "modelRef ?s1 \<noteq> None" using assms by (simp add: newTensor_def)
    from assms Captured Decoded
    consider (throws) "po = PredictThrows \<or> po = DataSyncThrows" | (nodata) "po = NoData"
      by (auto simp: iterationFails_def split: predict_outcome.splits)
    then show ?thesis
    proof cases
      case throws
      then have "\<not> noDataRead co"
        using Captured Decoded by (auto simp: noDataRead_def)
      with classifyImage_throws [OF m throws, of v "nextTensor st"] Captured Decoded
      show ?thesis
        by (simp add: nativeBody_def decodeImage_def newTensor_def)
    next
      case nodata
      then have "noDataRead co"
        using Captured Decoded by (simp add: noDataRead_def)
      with classifyImage_NoData [OF m, of v "nextTensor st"] Captured Decoded nodata
      show ?thesis
        by (simp add: nativeBody_def decodeImage_def newTensor_def)
    qed
  qed (simp_all add: Captured nativeBody_def decodeImage_def emit_def noDataRead_def)
qed

lemma publishFrame_fails:
  assumes "modelRef st \<noteq> None" and "frameFails px po"
  shows "predictions (publishFrame px po st) = predictions st
     \<and> console (publishFrame px po st)
         = (if frameNoDataRead px po then console st
            else console st @ [ConsoleWarn ''webLoop predict error''])
     \<and> loopState (publishFrame px po st) = loopState st"
  using assms
  by (auto simp: publishFrame_def frameFails_def frameNoDataRead_def prims loopState_def
      split: predict_outcome.splits)

text \<open>
  The model is loaded and the session running; the image decodes, and the model's output
  yields no data. The native iteration and the web frame both fail, and neither writes
  anything to the console.
\<close>

theorem silent_failure_counterexample:
  "iterationFails (Captured ''photo'' Decoded NoData)
   \<and> console liveNative = []
   \<and> console (runNativeLoop_resume AppJs (Captured ''photo'' Decoded NoData) liveNative) = []
   \<and> frameFails False NoData
   \<and> console liveWeb = []
   \<and> fst (step 1200 False NoData liveWeb) = Worked
   \<and> console (snd (step 1200 False NoData liveWeb)) = []"
  by (simp add: liveNative_def liveWeb_def app0_def iterationFails_def frameFails_def
      native_defs web_defs prims Let_def)

text \<open>
  C8, amended. A native iteration of a running session whose capture, decoding or
  inference fails leaves the published predictions as they were, keeps the running flags
  and arms the timer for the next iteration. A web frame that goes past the throttle and
  whose pixels or inference fail leaves the predictions as they were and keeps the running
  flags, and the next animation frame is armed. The failure is logged when the capture or
  the decoding fails or something throws (the web frame logs \<open>webLoop predict error\<close>);
  when the model's output yields no data, the iteration is skipped and nothing is written
  to the console.
\<close>

theorem iteration_failure_confined:
  "(running st \<and> modelRef st \<noteq> None \<and> iterationFails co \<longrightarrow>
      predictions (runNativeLoop_resume v co st) = predictions st
      \<and> running (runNativeLoop_resume v co st)
      \<and> liveRunning (runNativeLoop_resume v co st) = liveRunning st
      \<and> timeoutId (runNativeLoop_resume v co st) = Some (nextHandle st)
      \<and> nextHandle st \<in> set (pendingTimers (runNativeLoop_resume v co st))
      \<and> (if noDataRead co
          then console (runNativeLoop_resume v co st) = console st
          else length (console st) < length (console (runNativeLoop_resume v co st))
               \<and> take (length (console st)) (console (runNativeLoop_resume v co st)) = console st))
   \<and> (videoRef st \<and> modelRef st \<noteq> None \<and> frameIntervalMs st \<le> now - lastRun st
        \<and> frameFails px po \<longrightarrow>
      fst (step now px po st) = Worked
      \<and> predictions (snd (step now px po st)) = predictions st
      \<and> console (snd (step now px po st))
          = (if frameNoDataRead px po then console st
             else console st @ [ConsoleWarn ''webLoop predict error''])
      \<and> running (snd (step now px po st)) = running st
      \<and> liveRunning (snd (step now px po st)) = liveRunning st
      \<and> rafId (snd (step now px po st)) = Some (nextHandle st)
      \<and> nextHandle st \<in> set (pendingFrames (snd (step now px po st))))"
proof -
  have native: "predictions (runNativeLoop_resume v co st) = predictions st
      \<and> running (runNativeLoop_resume v co st)
      \<and> liveRunning (runNativeLoop_resume v co st) = liveRunning st
      \<and> timeoutId (runNativeLoop_resume v co st) = Some (nextHandle st)
      \<and> nextHandle st \<in> set (pendingTimers (runNativeLoop_resume v co st))
      \<and> (if noDataRead co
          then console (runNativeLoop_resume v co st) = console st
          else length (console st) < length (console (runNativeLoop_resume v co st))
               \<and> take (length (console st)) (console (runNativeLoop_resume v co st)) = console st)"
    if r: "running st" and m: "modelRef st \<noteq> None" and f: "iterationFails co"
  proof -
    let ?s0 = "st\<lparr>capturesInFlight := capturesInFlight st - 1\<rparr>"
    obtain res s1 where b: "nativeBody v co ?s0 = (res, s1)" by (cases "nativeBody v co ?s0")
    have m0: "modelRef ?s0 \<noteq> None" using m by simp
    have l: "loopState s1 = loopState st"
      using loopState_nativeBody [of v co ?s0] b by (simp add: loopState_def)
    have p: "predictions s1 = predictions st"
      using nativeBody_fails [OF m0 f, of v] b by simp
    from l r have r1: "running s1" and lr: "liveRunning s1 = liveRunning st"
      and nh: "nextHandle s1 = nextHandle st"
      by (simp_all add: loopState_def)
    show ?thesis
    proof (cases "noDataRead co")
      case True
      have c: "res = Value () \<and> console s1 = console st"
        using nativeBody_fails [OF m0 f, of v] b True by simp
      from b True p r1 lr nh c show ?thesis
        by (simp add: runNativeLoop_resume_def rearm_def setTimeout_def)
    next
      case False
      show ?thesis
      proof (cases res)
        case Thrown
        have c: "console s1 = console st"
          using nativeBody_fails [OF m0 f, of v] b Thrown False by simp
        from b Thrown False p r1 lr nh c show ?thesis
          by (simp add: runNativeLoop_resume_def rearm_def setTimeout_def emit_def)
      next
        case (Value u)
        have c: "length (console st) < length (console s1)
            \<and> take (length (console st)) (console s1) = console st"
          using nativeBody_fails [OF m0 f, of v] b Value False by simp
        from b Value False p r1 lr nh c show ?thesis
          by (simp add: runNativeLoop_resume_def rearm_def setTimeout_def)
      qed
    qed
  qed
  have web: "fst (step now px po st) = Worked
      \<and> predictions (snd (step now px po st)) = predictions st
      \<and> console (snd (step now px po st))
          = (if frameNoDataRead px po then console st
             else console st @ [ConsoleWarn ''webLoop predict error''])
      \<and> running (snd (step now px po st)) = running st
      \<and> liveRunning (snd (step now px po st)) = liveRunning st
      \<and> rafId (snd (step now px po st)) = Some (nextHandle st)
      \<and> nextHandle st \<in> set (pendingFrames (snd (step now px po st)))"
    if v: "videoRef st" and m: "modelRef st \<noteq> None"
      and e: "frameIntervalMs st \<le> now - lastRun st" and f: "frameFails px po"
  proof -
    let ?s2 = "(armFrame st)\<lparr>lastRun := now\<rparr>"
    have w: "step now px po st = (Worked, publishFrame px po ?s2)"
      using v m e by (simp add: step_def Let_def armFrame_def requestAnimationFrame_def)
    have m2: "modelRef ?s2 \<noteq> None" using m by (simp add: armFrame_def requestAnimationFrame_def)
    from publishFrame_fails [OF m2 f] w show ?thesis
      by (simp add: loopState_def armFrame_def requestAnimationFrame_def)
  qed
  from native web show ?thesis by blast
qed

theorem iteration_failure_confined_witness:
  "running liveNative \<and> modelRef liveNative \<noteq> None
   \<and> iterationFails (Captured ''photo'' DecodeNull NoData)
   \<and> predictions (runNativeLoop_resume AppJs (Captured ''photo'' DecodeNull NoData) liveNative) = []
   \<and> timeoutId (runNativeLoop_resume AppJs (Captured ''photo'' DecodeNull NoData) liveNative) = Some 1
   \<and> console (runNativeLoop_resume AppJs (Captured ''photo'' DecodeNull NoData) liveNative)
       = [ConsoleWarn ''native: cannot decode image to tensor'']
   \<and> iterationFails (Captured ''photo'' Decoded NoData)
   \<and> noDataRead (Captured ''photo'' Decoded NoData)
   \<and> timeoutId (runNativeLoop_resume AppJs (Captured ''photo'' Decoded NoData) liveNative) = Some 1
   \<and> console (runNativeLoop_resume AppJs (Captured ''photo'' Decoded NoData) liveNative) = []
   \<and> videoRef liveWeb \<and> modelRef liveWeb \<noteq> None
   \<and> frameIntervalMs liveWeb \<le> 1200 - lastRun liveWeb \<and> frameFails False PredictThrows
   \<and> fst (step 1200 False PredictThrows liveWeb) = Worked
   \<and> console (snd (step 1200 False PredictThrows liveWeb)) = [ConsoleWarn ''webLoop predict error'']
   \<and> rafId (snd (step 1200 False PredictThrows liveWeb)) = Some 2
   \<and> frameFails False NoData \<and> frameNoDataRead False NoData
   \<and> console (snd (step 1200 False NoData liveWeb)) = []
   \<and> rafId (snd (step 1200 False NoData liveWeb)) = Some 2"
  using iteration_failure_confined [of liveNative "Captured ''photo'' DecodeNull NoData" AppJs 0 False NoData]
    iteration_failure_confined [of liveNative "Captured ''photo'' Decoded NoData" AppJs 0 False NoData]
    iteration_failure_confined [of liveWeb "Captured ''photo'' DecodeNull NoData" AppJs 1200 False PredictThrows]
    iteration_failure_confined [of liveWeb "Captured ''photo'' DecodeNull NoData" AppJs 1200 False NoData]
  by (simp add: liveNative_def liveWeb_def app0_def iterationFails_def frameFails_def
      noDataRead_def frameNoDataRead_def native_defs web_defs prims Let_def)

section \<open>Starting the live session\<close>

lemma withModel_None:
  "withModel v pf None st = (False, emit (Alert ''Gagal memuat model.'') st)"
  by (simp add: withModel_def)

lemma loadModel_resume_None:
  "fst (loadModel_resume v pf oc st) = None \<Longrightarrow>
     loopState (snd (loadModel_resume v pf oc st)) = loopState st
     \<and> capturesInFlight (snd (loadModel_resume v pf oc st)) = capturesInFlight st
     \<and> modelRef (snd (loadModel_resume v pf oc st)) = modelRef st"
  by (cases oc) (simp_all add: loadModel_resume_def loadFailed_def emit_def loopState_def)

text \<open>
  C7. Starting while the session is running returns at once and changes nothing, in
  \<^verbatim>\<open>startLiveInternal\<close> and in \<^verbatim>\<open>startLive\<close>. When the load that a start waited for
  yields no model, the start fails (\<^verbatim>\<open>startLiveInternal\<close> returns false) and leaves the
  running flags, the frame and timer handles, the pending callbacks and the captures in
  flight as they were; the same holds when the loader returns \<^verbatim>\<open>null\<close> at once, where
  the start only raises its alert.
\<close>

theorem start_noop_or_idle:
  "(running st \<longrightarrow>
      startLiveInternal_begin pf seenLoading st = (Returned True, st)
      \<and> startLive_begin pf seenLoading st = (Returned (), st))
   \<and> (fst (loadModel_resume AppJs pf oc st) = None \<longrightarrow>
        fst (startLiveInternal_resume pf oc st) = False
        \<and> loopState (snd (startLiveInternal_resume pf oc st)) = loopState st
        \<and> capturesInFlight (snd (startLiveInternal_resume pf oc st)) = capturesInFlight st)
   \<and> (fst (loadModel_resume Part000 pf oc st) = None \<longrightarrow>
        loopState (startLive_afterLoad pf oc st) = loopState st
        \<and> capturesInFlight (startLive_afterLoad pf oc st) = capturesInFlight st)
   \<and> (\<not> running st \<and> modelRef st = None \<and> seenLoading \<longrightarrow>
        startLiveInternal_begin pf seenLoading st
          = (Returned False, emit (Alert ''Gagal memuat model.'') st)
        \<and> startLive_model pf seenLoading st
          = (Returned (), emit (Alert ''Gagal memuat model.'') st))"
proof -
  have a: "running st \<longrightarrow>
      startLiveInternal_begin pf seenLoading st = (Returned True, st)
      \<and> startLive_begin pf seenLoading st = (Returned (), st)"
    by (simp add: startLiveInternal_begin_def startLive_begin_def)
  have b: "fst (loadModel_resume AppJs pf oc st) = None \<longrightarrow>
        fst (startLiveInternal_resume pf oc st) = False
        \<and> loopState (snd (startLiveInternal_resume pf oc st)) = loopState st
        \<and> capturesInFlight (snd (startLiveInternal_resume pf oc st)) = capturesInFlight st"
  proof
    assume h: "fst (loadModel_resume AppJs pf oc st) = None"
    obtain m s1 where e: "loadModel_resume AppJs pf oc st = (m, s1)"
      by (cases "loadModel_resume AppJs pf oc st")
    with h loadModel_resume_None [OF h] show
      "fst (startLiveInternal_resume pf oc st) = False
        \<and> loopState (snd (startLiveInternal_resume pf oc st)) = loopState st
        \<and> capturesInFlight (snd (startLiveInternal_resume pf oc st)) = capturesInFlight st"
      by (simp add: startLiveInternal_resume_def withModel_None loopState_emit capturesInFlight_emit)
  qed
  have c: "fst (loadModel_resume Part000 pf oc st) = None \<longrightarrow>
        loopState (startLive_afterLoad pf oc st) = loopState st
        \<and> capturesInFlight (startLive_afterLoad pf oc st) = capturesInFlight st"
  proof
    assume h: "fst (loadModel_resume Part000 pf oc st) = None"
    obtain m s1 where e: "loadModel_resume Part000 pf oc st = (m, s1)"
      by (cases "loadModel_resume Part000 pf oc st")
    with h loadModel_resume_None [OF h] show
      "loopState (startLive_afterLoad pf oc st) = loopState st
        \<and> capturesInFlight (startLive_afterLoad pf oc st) = capturesInFlight st"
      by (simp add: startLive_afterLoad_def withModel_None loopState_emit capturesInFlight_emit)
  qed
  have d: "\<not> running st \<and> modelRef st = None \<and> seenLoading \<longrightarrow>
        startLiveInternal_begin pf seenLoading st
          = (Returned False, emit (Alert ''Gagal memuat model.'') st)
        \<and> startLive_model pf seenLoading st
          = (Returned (), emit (Alert ''Gagal memuat model.'') st)"
    by (simp add: startLiveInternal_begin_def startLive_model_def loadModel_begin_def withModel_None)
  from a b c d show ?thesis by blast
qed

theorem start_noop_or_idle_witness:
  "running liveNative
   \<and> startLiveInternal_begin Native False liveNative = (Returned True, liveNative)
   \<and> startLive_begin Native False liveNative = (Returned (), liveNative)
   \<and> fst (loadModel_resume AppJs Native LoadThrows (snd (loadModel_begin False app0))) = None
   \<and> fst (startLiveInternal_resume Native LoadThrows (snd (loadModel_begin False app0))) = False
   \<and> running (snd (startLiveInternal_resume Native LoadThrows (snd (loadModel_begin False app0)))) = False
   \<and> pendingTimers (snd (startLiveInternal_resume Native LoadThrows (snd (loadModel_begin False app0)))) = []
   \<and> fst (loadModel_resume Part000 Native LoadThrows (snd (loadModel_begin False app0))) = None
   \<and> running (startLive_afterLoad Native LoadThrows (snd (loadModel_begin False app0))) = False
   \<and> \<not> running (snd (loadModel_begin False app0))
   \<and> modelRef (snd (loadModel_begin False app0)) = None
   \<and> fst (startLiveInternal_begin Native True (snd (loadModel_begin False app0))) = Returned False"
  using start_noop_or_idle [of liveNative Native False LoadThrows]
    start_noop_or_idle [of "snd (loadModel_begin False app0)" Native True LoadThrows]
  by (simp add: liveNative_def app0_def loadModel_begin_def loadModel_resume_def loadFailed_def
      emit_def loopState_def)

section \<open>Snapshot\<close>

lemma loopState_handleSnapshot_loaded:
  "loopState (snd (handleSnapshot_loaded pf url px po st)) = loopState st"
proof (cases "tidy (framePipeline px po) (st\<lparr>photoUri := Some url\<rparr>)")
  case (Pair r s1)
  have "loopState s1 = loopState st"
    using loopState_framePipeline [of px po "st\<lparr>photoUri := Some url\<rparr>"] Pair
    by (simp add: loopState_def)
  with Pair show ?thesis
    by (simp add: handleSnapshot_loaded_def loopState_emit split: platform.splits outcome.splits option.splits)
      (simp add: loopState_def)
qed

text \<open>
  C10. No stretch of the snapshot handler changes the scheduling state of the live
  session: the running flags, the web loop's frame handle and throttle fields, the native
  loop's timer handle and the host's pending frame and timer callbacks are the same after
  it as before, whether the session is running or not and whatever the loader, the camera
  and the model do.
\<close>

theorem snapshot_keeps_loop_state:
  "loopState (snd (handleSnapshot_begin pf seenLoading url px po st)) = loopState st
   \<and> loopState (snd (handleSnapshot_afterLoad pf oc url px po st)) = loopState st
   \<and> loopState (snd (handleSnapshot_afterCapture co st)) = loopState st"
proof -
  have a: "loopState (snd (handleSnapshot_begin pf seenLoading url px po st)) = loopState st"
    by (simp add: handleSnapshot_begin_def loadModel_begin_def loopState_handleSnapshot_loaded)
      (simp add: loopState_def)
  have b: "loopState (snd (handleSnapshot_afterLoad pf oc url px po st)) = loopState st"
    by (simp add: handleSnapshot_afterLoad_def loopState_handleSnapshot_loaded loopState_loadModel_resume)
  have c: "loopState (snd (handleSnapshot_afterCapture co st)) = loopState st"
  proof (cases co)
    case CaptureThrows
    then show ?thesis by (simp add: handleSnapshot_afterCapture_def loopState_def)
  next
    case (Captured uri dec po')
    let ?s0 = "st\<lparr>capturesInFlight := capturesInFlight st - 1, photoUri := Some uri\<rparr>"
    show ?thesis
    proof (cases dec)
      case Decoded
      obtain r s2 where e: "classifyImage AppJs (nextTensor st) po' (snd (newTensor ?s0)) = (r, s2)"
        by (cases "classifyImage AppJs (nextTensor st) po' (snd (newTensor ?s0))")
      have "loopState s2 = loopState st"
        using loopState_classifyImage [of AppJs "nextTensor st" po' "snd (newTensor ?s0)"] e
        by (simp add: loopState_def newTensor_def)
      with Captured Decoded e show ?thesis
        by (cases r) (simp_all add: handleSnapshot_afterCapture_def decodeImage_def newTensor_def)
    qed (simp_all add: Captured handleSnapshot_afterCapture_def decodeImage_def emit_def loopState_def)
  qed
  from a b c show ?thesis by blast
qed

theorem snapshot_keeps_loop_state_witness:
  "loopState (snd (handleSnapshot_begin Web False ''data:image/jpeg'' False (Data [Fin 0.7, Fin 0.2, Fin 0.1]) liveWeb))
     = (True, True, Some 1, 1000, 200, None, [1], [], 2)
   \<and> predictions (snd (handleSnapshot_begin Web False ''data:image/jpeg'' False (Data [Fin 0.7, Fin 0.2, Fin 0.1]) liveWeb))
     = rank LABELS [Fin 0.7, Fin 0.2, Fin 0.1]
   \<and> loopState (snd (handleSnapshot_afterLoad Native LoadThrows ''data:image/jpeg'' False NoData liveNative))
     = loopState liveNative
   \<and> loopState (snd (handleSnapshot_afterCapture (Captured ''photo'' Decoded (Data [Fin 0.7, Fin 0.2, Fin 0.1])) liveNative))
     = loopState liveNative"
  using snapshot_keeps_loop_state [of Web False "''data:image/jpeg''" False "Data [Fin 0.7, Fin 0.2, Fin 0.1]" liveWeb
      LoadThrows CaptureThrows]
    snapshot_keeps_loop_state [of Native False "''data:image/jpeg''" False NoData liveNative
      LoadThrows "Captured ''photo'' Decoded (Data [Fin 0.7, Fin 0.2, Fin 0.1])"]
  by (simp add: liveWeb_def liveNative_def app0_def loopState_def handleSnapshot_begin_def
      handleSnapshot_loaded_def prims)

end
